theory Spec2Isabelle
  imports Main "HOL-Library.Word"
begin

section \<open>Data model\<close>

text \<open>
  The Go sources under verification are
  \<^verbatim>\<open>pkg/component/extensions/worker/worker.go\<close> (the \<^verbatim>\<open>Worker\<close> component) and the
  monitoring helper \<^verbatim>\<open>deleteAlertmanager\<close>.  Structs become records whose fields are
  prefixed with the struct's name, a Go pointer field that may be nil becomes an
  \<open>option\<close>, a slice becomes a list, a \<^verbatim>\<open>map[string]T\<close> becomes a partial function
  and \<^verbatim>\<open>[]byte\<close> becomes a \<open>string\<close>.
\<close>

type_synonym bytes = string
type_synonym Quantity = string
type_synonym ResourceList = "string \<rightharpoonup> Quantity"
type_synonym Duration = int

text \<open>\<^verbatim>\<open>time.Duration\<close> counts nanoseconds.\<close>

definition Second :: Duration where
  "Second = 1000000000"

definition Minute :: Duration where
  "Minute = 60 * Second"

definition DefaultInterval :: Duration where
  "DefaultInterval = 5 * Second"

definition DefaultSevereThreshold :: Duration where
  "DefaultSevereThreshold = 30 * Second"

definition DefaultTimeout :: Duration where
  "DefaultTimeout = 10 * Minute"

text \<open>
  A wall-clock instant (seconds and nanoseconds within the second), as carried by a
  \<^verbatim>\<open>metav1.Time\<close> read from the API server; \<^verbatim>\<open>After\<close> is the comparison of
  \<^verbatim>\<open>time.Time.After\<close> on instants without a monotonic reading.
\<close>

record Time =
  Time_sec :: int
  Time_nsec :: int

definition After :: "Time \<Rightarrow> Time \<Rightarrow> bool" where
  "After t u =
     (Time_sec t > Time_sec u \<or> Time_sec t = Time_sec u \<and> Time_nsec t > Time_nsec u)"

typedecl RuntimeObject

record RawExtension =
  RawExtension_Raw :: bytes
  RawExtension_Object :: "RuntimeObject option"

datatype IntOrString = IntVal "32 word" | StrVal string

record Taint =
  Taint_Key :: string
  Taint_Value :: string
  Taint_Effect :: string

typedecl MachineControllerManagerSettings

text \<open>A parsed semantic version (\<^verbatim>\<open>semver.Version\<close>).\<close>

record SemverVersion =
  SemverVersion_major :: "64 word"
  SemverVersion_minor :: "64 word"
  SemverVersion_patch :: "64 word"
  SemverVersion_pre :: string
  SemverVersion_metadata :: string

subsection \<open>The core API: worker pools of the Shoot and machine types of the CloudProfile\<close>

record MachineType =
  MachineType_Name :: string
  MachineType_CPU :: Quantity
  MachineType_GPU :: Quantity
  MachineType_Memory :: Quantity

record ShootMachineImage =
  ShootMachineImage_Name :: string
  ShootMachineImage_Version :: "string option"

record Machine =
  Machine_Type :: string
  Machine_Image :: "ShootMachineImage option"
  Machine_Architecture :: "string option"

record Volume =
  Volume_Name :: "string option"
  Volume_Type :: "string option"
  Volume_VolumeSize :: string
  Volume_Encrypted :: "bool option"

record DataVolume =
  DataVolume_Name :: string
  DataVolume_Type :: "string option"
  DataVolume_VolumeSize :: string
  DataVolume_Encrypted :: "bool option"

record WorkerKubernetes =
  WorkerKubernetes_Version :: "string option"

record Worker =
  Worker_Name :: string
  Worker_Minimum :: "32 word"
  Worker_Maximum :: "32 word"
  Worker_MaxSurge :: "IntOrString option"
  Worker_MaxUnavailable :: "IntOrString option"
  Worker_Annotations :: "string \<rightharpoonup> string"
  Worker_Labels :: "string \<rightharpoonup> string"
  Worker_Taints :: "Taint list"
  Worker_Machine :: Machine
  Worker_ProviderConfig :: "RawExtension option"
  Worker_Volume :: "Volume option"
  Worker_DataVolumes :: "DataVolume list"
  Worker_KubeletDataVolumeName :: "string option"
  Worker_Kubernetes :: "WorkerKubernetes option"
  Worker_Zones :: "string list"
  Worker_MachineControllerManagerSettings :: "MachineControllerManagerSettings option"

subsection \<open>Operating system configs\<close>

record Data =
  Data_Content :: string

record OperatingSystemConfigs =
  OperatingSystemConfigs_Downloader :: Data
  OperatingSystemConfigs_Original :: Data

subsection \<open>The extensions API: the Worker resource\<close>

record ExtVolume =
  ExtVolume_Name :: "string option"
  ExtVolume_Type :: "string option"
  ExtVolume_Size :: string
  ExtVolume_Encrypted :: "bool option"

record ExtDataVolume =
  ExtDataVolume_Name :: string
  ExtDataVolume_Type :: "string option"
  ExtDataVolume_Size :: string
  ExtDataVolume_Encrypted :: "bool option"

record MachineImage =
  MachineImage_Name :: string
  MachineImage_Version :: string

record NodeTemplate =
  NodeTemplate_Capacity :: ResourceList

record WorkerPool =
  WorkerPool_Name :: string
  WorkerPool_Minimum :: "32 word"
  WorkerPool_Maximum :: "32 word"
  WorkerPool_MaxSurge :: IntOrString
  WorkerPool_MaxUnavailable :: IntOrString
  WorkerPool_Annotations :: "string \<rightharpoonup> string"
  WorkerPool_Labels :: "string \<rightharpoonup> string"
  WorkerPool_Taints :: "Taint list"
  WorkerPool_MachineType :: string
  WorkerPool_MachineImage :: MachineImage
  WorkerPool_NodeTemplate :: "NodeTemplate option"
  WorkerPool_ProviderConfig :: "RawExtension option"
  WorkerPool_UserData :: bytes
  WorkerPool_Volume :: "ExtVolume option"
  WorkerPool_DataVolumes :: "ExtDataVolume list"
  WorkerPool_KubeletDataVolumeName :: "string option"
  WorkerPool_KubernetesVersion :: "string option"
  WorkerPool_Zones :: "string list"
  WorkerPool_MachineControllerManagerSettings :: "MachineControllerManagerSettings option"
  WorkerPool_Architecture :: "string option"

record SecretReference =
  SecretReference_Name :: string
  SecretReference_Namespace :: string

record DefaultSpec =
  DefaultSpec_Type :: string
  DefaultSpec_ProviderConfig :: "RawExtension option"

record WorkerSpec =
  WorkerSpec_DefaultSpec :: DefaultSpec
  WorkerSpec_Region :: string
  WorkerSpec_SecretRef :: SecretReference
  WorkerSpec_SSHPublicKey :: bytes
  WorkerSpec_InfrastructureProviderStatus :: "RawExtension option"
  WorkerSpec_Pools :: "WorkerPool list"

record MachineDeployment =
  MachineDeployment_Name :: string
  MachineDeployment_Minimum :: "32 word"
  MachineDeployment_Maximum :: "32 word"

record WorkerStatus =
  WorkerStatus_State :: "RawExtension option"
  WorkerStatus_MachineDeployments :: "MachineDeployment list"
  WorkerStatus_MachineDeploymentsLastUpdateTime :: "Time option"

record ObjectMeta =
  ObjectMeta_Name :: string
  ObjectMeta_Namespace :: string
  ObjectMeta_ResourceVersion :: string
  ObjectMeta_DeletionTimestamp :: "Time option"
  ObjectMeta_Labels :: "string \<rightharpoonup> string"
  ObjectMeta_Annotations :: "string \<rightharpoonup> string"

record ExtWorker =
  ExtWorker_ObjectMeta :: ObjectMeta
  ExtWorker_Spec :: WorkerSpec
  ExtWorker_Status :: WorkerStatus

text \<open>The zero value \<^verbatim>\<open>&extensionsv1alpha1.Worker{}\<close>.\<close>

definition emptyObjectMeta :: ObjectMeta where
  "emptyObjectMeta =
     \<lparr>ObjectMeta_Name = [], ObjectMeta_Namespace = [], ObjectMeta_ResourceVersion = [],
      ObjectMeta_DeletionTimestamp = None, ObjectMeta_Labels = Map.empty,
      ObjectMeta_Annotations = Map.empty\<rparr>"

definition emptyWorkerSpec :: WorkerSpec where
  "emptyWorkerSpec =
     \<lparr>WorkerSpec_DefaultSpec = \<lparr>DefaultSpec_Type = [], DefaultSpec_ProviderConfig = None\<rparr>,
      WorkerSpec_Region = [],
      WorkerSpec_SecretRef = \<lparr>SecretReference_Name = [], SecretReference_Namespace = []\<rparr>,
      WorkerSpec_SSHPublicKey = [],
      WorkerSpec_InfrastructureProviderStatus = None,
      WorkerSpec_Pools = []\<rparr>"

definition emptyWorkerStatus :: WorkerStatus where
  "emptyWorkerStatus =
     \<lparr>WorkerStatus_State = None, WorkerStatus_MachineDeployments = [],
      WorkerStatus_MachineDeploymentsLastUpdateTime = None\<rparr>"

definition emptyWorker :: ExtWorker where
  "emptyWorker =
     \<lparr>ExtWorker_ObjectMeta = emptyObjectMeta, ExtWorker_Spec = emptyWorkerSpec,
      ExtWorker_Status = emptyWorkerStatus\<rparr>"

subsection \<open>The component's configuration and state\<close>

record Values =
  Values_Namespace :: string
  Values_Name :: string
  Values_Type :: string
  Values_Region :: string
  Values_Workers :: "Worker list"
  Values_KubernetesVersion :: "SemverVersion option"
  Values_MachineTypes :: "MachineType list"
  Values_SSHPublicKey :: bytes
  Values_InfrastructureProviderStatus :: "RawExtension option"
  Values_WorkerNameToOperatingSystemConfigsMap :: "string \<rightharpoonup> OperatingSystemConfigs option"
  Values_NodeLocalDNSEnabled :: bool

text \<open>
  The struct \<^verbatim>\<open>worker\<close>.  Its \<^verbatim>\<open>client\<close> is the API server the operations talk to and
  is passed to every operation as the state of the outside world; its logger is left out.
\<close>

record worker =
  worker_values :: Values
  worker_waitInterval :: Duration
  worker_waitSevereThreshold :: Duration
  worker_waitTimeout :: Duration
  worker_worker :: ExtWorker
  worker_machineDeployments :: "MachineDeployment list"
  worker_machineDeploymentsLastUpdateTime :: "Time option"

subsection \<open>Errors and panics\<close>

text \<open>
  An \<^verbatim>\<open>error\<close> is a value; \<^verbatim>\<open>apierrors.IsNotFound\<close> recognises the not-found errors
  of the API server.  Dereferencing a nil pointer panics: every function that
  dereferences returns \<open>panic + 'a\<close>, with \<open>Inl\<close> the panic.
\<close>

datatype error = NotFoundError string | APIError string | ErrorString string

fun IsNotFound :: "error \<Rightarrow> bool" where
  "IsNotFound (NotFoundError _) = True"
| "IsNotFound _ = False"

datatype panic = NilPointerDereference

definition deref :: "'a option \<Rightarrow> panic + 'a" where
  "deref p = (case p of None \<Rightarrow> Inl NilPointerDereference | Some x \<Rightarrow> Inr x)"

definition pbind :: "panic + 'a \<Rightarrow> ('a \<Rightarrow> panic + 'b) \<Rightarrow> panic + 'b" where
  "pbind m f = (case m of Inl p \<Rightarrow> Inl p | Inr x \<Rightarrow> f x)"

subsection \<open>The ShootState\<close>

record GardenerResourceData =
  GardenerResourceData_Name :: string
  GardenerResourceData_Type :: string
  GardenerResourceData_Data :: RawExtension

record ExtensionResourceState =
  ExtensionResourceState_Kind :: string
  ExtensionResourceState_Name :: "string option"
  ExtensionResourceState_Purpose :: "string option"
  ExtensionResourceState_State :: "RawExtension option"

record ShootStateSpec =
  ShootStateSpec_Gardener :: "GardenerResourceData list"
  ShootStateSpec_Extensions :: "ExtensionResourceState list"

record ShootState =
  ShootState_ObjectMeta :: ObjectMeta
  ShootState_Spec :: ShootStateSpec

subsection \<open>Objects handed to the client\<close>

text \<open>
  A \<^verbatim>\<open>client.Object\<close> (a non-nil reference to an API object) is a Worker or an object of
  another kind; the objects of other kinds that occur here are built with nothing but
  their metadata.
\<close>

datatype Object =
  WorkerObject ExtWorker
| StatefulSetObject ObjectMeta
| IngressObject ObjectMeta
| ServiceObject ObjectMeta
| SecretObject ObjectMeta
| PersistentVolumeClaimObject ObjectMeta

fun typeName :: "Object \<Rightarrow> string" where
  "typeName (WorkerObject _) = ''*v1alpha1.Worker''"
| "typeName (StatefulSetObject _) = ''*v1.StatefulSet''"
| "typeName (IngressObject _) = ''*v1.Ingress''"
| "typeName (ServiceObject _) = ''*v1.Service''"
| "typeName (SecretObject _) = ''*v1.Secret''"
| "typeName (PersistentVolumeClaimObject _) = ''*v1.PersistentVolumeClaim''"

section \<open>What the sources use and do not define\<close>

text \<open>
  The constants of \<^verbatim>\<open>v1beta1constants\<close> and \<^verbatim>\<open>extensionsv1alpha1\<close> and the pure helpers
  of other packages are parameters of the development: nothing is assumed about them
  beyond their types.  \<^verbatim>\<open>NodeLabelsForWorkerPool\<close> receives the worker pool with its nil-able
  fields and dereferences some of them (\<^verbatim>\<open>Machine.Architecture\<close>): it returns the labels
  or panics.
\<close>

record env =
  GardenerOperation :: string
  GardenerTimestamp :: string
  GardenerOperationReconcile :: string
  SecretNameCloudProvider :: string
  DataTypeMachineState :: string
  WorkerResource :: string
  StatefulSetNameAlertManager :: string
  NodeLabelsForWorkerPool :: "Worker \<Rightarrow> bool \<Rightarrow> panic + (string \<rightharpoonup> string)"
  FindMachineTypeByName :: "MachineType list \<Rightarrow> string \<Rightarrow> MachineType option"
  SemverVersion_String :: "SemverVersion \<Rightarrow> string"
  FormatRFC3339Nano :: "Time \<Rightarrow> string"
  GardenerResourceDataList_Get ::
    "GardenerResourceData list \<Rightarrow> string \<Rightarrow> GardenerResourceData option"
  ExtensionResourceStateList_Upsert ::
    "ExtensionResourceState list \<Rightarrow> ExtensionResourceState \<Rightarrow> ExtensionResourceState list"
  DecompressMachineState :: "bytes \<Rightarrow> error + bytes"

text \<open>
  The calls into the client and into the extension framework.  The outside world (the
  API server, the clock) is a state of type \<open>'c\<close>; the component's own operations thread
  it together with the log of the calls they issue.
\<close>

type_synonym ObjectKey = "string \<times> string"

datatype call =
  CallGet ObjectKey
| CallGetAndCreateOrMergePatch ExtWorker
| CallRestoreExtensionWithDeployFunction ShootState string
| CallMigrateExtensionObject ExtWorker
| CallDeleteExtensionObject ExtWorker
| CallWaitUntilExtensionObjectReady ExtWorker string Duration Duration Duration
| CallWaitUntilObjectReadyWithHealthFunction ExtWorker string Duration Duration Duration
| CallWaitUntilExtensionObjectMigrated ExtWorker string Duration Duration
| CallWaitUntilExtensionObjectDeleted ExtWorker string Duration Duration
| CallDeleteObjects "Object list"

record 'c st =
  client :: 'c
  calls :: "call list"

type_synonym deployResult = "panic + ExtWorker option \<times> error option"

record 'c framework =
  TimeNow :: "'c \<Rightarrow> Time"
  client_Get :: "'c \<Rightarrow> ObjectKey \<Rightarrow> ExtWorker \<Rightarrow> 'c \<times> ExtWorker \<times> error option"
  GetAndCreateOrMergePatch ::
    "'c \<Rightarrow> ExtWorker \<Rightarrow> ('c \<Rightarrow> ExtWorker \<Rightarrow> ExtWorker \<times> error option)
       \<Rightarrow> 'c \<times> ExtWorker \<times> error option"
  RestoreExtensionWithDeployFunction ::
    "'c st \<Rightarrow> worker \<Rightarrow> ShootState \<Rightarrow> string
       \<Rightarrow> (string \<Rightarrow> 'c st \<Rightarrow> worker \<Rightarrow> 'c st \<times> worker \<times> deployResult)
       \<Rightarrow> 'c st \<times> worker \<times> ShootState \<times> (panic + error option)"
  MigrateExtensionObject :: "'c \<Rightarrow> ExtWorker \<Rightarrow> 'c \<times> ExtWorker \<times> error option"
  DeleteExtensionObject :: "'c \<Rightarrow> ExtWorker \<Rightarrow> 'c \<times> ExtWorker \<times> error option"
  WaitUntilExtensionObjectReady ::
    "'c \<Rightarrow> ExtWorker \<Rightarrow> string \<Rightarrow> Duration \<Rightarrow> Duration \<Rightarrow> Duration
       \<Rightarrow> 'c \<times> ExtWorker \<times> error option"
  WaitUntilObjectReadyWithHealthFunction ::
    "'c \<Rightarrow> worker \<Rightarrow> (worker \<Rightarrow> Object \<Rightarrow> error option) \<Rightarrow> string
       \<Rightarrow> Duration \<Rightarrow> Duration \<Rightarrow> Duration \<Rightarrow> (worker \<Rightarrow> worker \<times> error option)
       \<Rightarrow> 'c \<times> worker \<times> error option"
  WaitUntilExtensionObjectMigrated ::
    "'c \<Rightarrow> ExtWorker \<Rightarrow> string \<Rightarrow> Duration \<Rightarrow> Duration \<Rightarrow> 'c \<times> ExtWorker \<times> error option"
  WaitUntilExtensionObjectDeleted ::
    "'c \<Rightarrow> ExtWorker \<Rightarrow> string \<Rightarrow> Duration \<Rightarrow> Duration \<Rightarrow> 'c \<times> ExtWorker \<times> error option"
  DeleteObjects :: "'c \<Rightarrow> Object list \<Rightarrow> 'c \<times> error option"

definition logCall :: "'c st \<Rightarrow> call \<Rightarrow> 'c \<Rightarrow> 'c st" where
  "logCall s c cl = \<lparr>client = cl, calls = calls s @ [c]\<rparr>"

section \<open>The Worker component\<close>

definition New :: "Values \<Rightarrow> Duration \<Rightarrow> Duration \<Rightarrow> Duration \<Rightarrow> worker" where
  "New values waitInterval waitSevereThreshold waitTimeout =
     \<lparr>worker_values = values,
      worker_waitInterval = waitInterval,
      worker_waitSevereThreshold = waitSevereThreshold,
      worker_waitTimeout = waitTimeout,
      worker_worker = emptyWorker
        \<lparr>ExtWorker_ObjectMeta := emptyObjectMeta
           \<lparr>ObjectMeta_Name := Values_Name values,
            ObjectMeta_Namespace := Values_Namespace values\<rparr>\<rparr>,
      worker_machineDeployments = [],
      worker_machineDeploymentsLastUpdateTime = None\<rparr>"

definition SetSSHPublicKey :: "worker \<Rightarrow> bytes \<Rightarrow> worker" where
  "SetSSHPublicKey w key = w\<lparr>worker_values := (worker_values w)\<lparr>Values_SSHPublicKey := key\<rparr>\<rparr>"

definition SetInfrastructureProviderStatus :: "worker \<Rightarrow> RawExtension option \<Rightarrow> worker" where
  "SetInfrastructureProviderStatus w status =
     w\<lparr>worker_values := (worker_values w)\<lparr>Values_InfrastructureProviderStatus := status\<rparr>\<rparr>"

definition SetWorkerNameToOperatingSystemConfigsMap ::
    "worker \<Rightarrow> (string \<rightharpoonup> OperatingSystemConfigs option) \<Rightarrow> worker" where
  "SetWorkerNameToOperatingSystemConfigsMap w maps =
     w\<lparr>worker_values := (worker_values w)\<lparr>Values_WorkerNameToOperatingSystemConfigsMap := maps\<rparr>\<rparr>"

definition MachineDeployments :: "worker \<Rightarrow> MachineDeployment list" where
  "MachineDeployments w = worker_machineDeployments w"

subsection \<open>Building the pools\<close>

text \<open>The loop of \<^verbatim>\<open>findNodeTemplateAndMachineTypeByPoolName\<close> over \<^verbatim>\<open>obj.Spec.Pools\<close>.\<close>

fun findInPools :: "WorkerPool list \<Rightarrow> string \<Rightarrow> NodeTemplate option \<times> string" where
  "findInPools [] poolName = (None, [])"
| "findInPools (pool # pools) poolName =
     (if WorkerPool_Name pool = poolName
      then (WorkerPool_NodeTemplate pool, WorkerPool_MachineType pool)
      else findInPools pools poolName)"

definition findNodeTemplateAndMachineTypeByPoolName ::
    "ExtWorker \<Rightarrow> string \<Rightarrow> NodeTemplate option \<times> string" where
  "findNodeTemplateAndMachineTypeByPoolName obj poolName =
     findInPools (WorkerSpec_Pools (ExtWorker_Spec obj)) poolName"

definition nodeTemplateFromMachineType :: "MachineType \<Rightarrow> NodeTemplate" where
  "nodeTemplateFromMachineType machineDetails =
     \<lparr>NodeTemplate_Capacity =
        [''cpu'' \<mapsto> MachineType_CPU machineDetails,
         ''gpu'' \<mapsto> MachineType_GPU machineDetails,
         ''memory'' \<mapsto> MachineType_Memory machineDetails]\<rparr>"

text \<open>
  The body of the loop over \<^verbatim>\<open>w.values.Workers\<close> in \<^verbatim>\<open>deploy\<close>: one desired pool, or
  the panic of a nil dereference (\<^verbatim>\<open>val.Downloader\<close>, \<^verbatim>\<open>w.values.KubernetesVersion.String()\<close>,
  \<^verbatim>\<open>*workerPool.MaxSurge\<close>, \<^verbatim>\<open>*workerPool.MaxUnavailable\<close>, inside the call of
  \<^verbatim>\<open>NodeLabelsForWorkerPool\<close>, \<^verbatim>\<open>workerPool.Machine.Image.Name\<close>,
  \<^verbatim>\<open>*workerPool.Machine.Image.Version\<close>).
\<close>

definition desiredVolume :: "Volume option \<Rightarrow> ExtVolume option" where
  "desiredVolume v =
     (case v of
        None \<Rightarrow> None
      | Some vol \<Rightarrow>
          Some \<lparr>ExtVolume_Name = Volume_Name vol, ExtVolume_Type = Volume_Type vol,
                ExtVolume_Size = Volume_VolumeSize vol,
                ExtVolume_Encrypted = Volume_Encrypted vol\<rparr>)"

definition desiredDataVolume :: "DataVolume \<Rightarrow> ExtDataVolume" where
  "desiredDataVolume dataVolume =
     \<lparr>ExtDataVolume_Name = DataVolume_Name dataVolume,
      ExtDataVolume_Type = DataVolume_Type dataVolume,
      ExtDataVolume_Size = DataVolume_VolumeSize dataVolume,
      ExtDataVolume_Encrypted = DataVolume_Encrypted dataVolume\<rparr>"

definition desiredProviderConfig :: "RawExtension option \<Rightarrow> RawExtension option" where
  "desiredProviderConfig pc =
     (case pc of
        None \<Rightarrow> None
      | Some c \<Rightarrow> Some \<lparr>RawExtension_Raw = RawExtension_Raw c, RawExtension_Object = None\<rparr>)"

definition desiredUserData :: "Values \<Rightarrow> string \<Rightarrow> panic + bytes" where
  "desiredUserData values name =
     (case Values_WorkerNameToOperatingSystemConfigsMap values name of
        None \<Rightarrow> Inr []
      | Some val \<Rightarrow>
          pbind (deref val) (\<lambda>oscs. Inr (Data_Content (OperatingSystemConfigs_Downloader oscs))))"

definition desiredKubernetesVersion :: "env \<Rightarrow> Values \<Rightarrow> Worker \<Rightarrow> panic + string" where
  "desiredKubernetesVersion h values workerPool =
     pbind (deref (Values_KubernetesVersion values)) (\<lambda>kubernetesVersion.
       Inr (case Worker_Kubernetes workerPool of
              None \<Rightarrow> SemverVersion_String h kubernetesVersion
            | Some k \<Rightarrow>
                (case WorkerKubernetes_Version k of
                   None \<Rightarrow> SemverVersion_String h kubernetesVersion
                 | Some version \<Rightarrow> version)))"

definition desiredNodeTemplate :: "env \<Rightarrow> Values \<Rightarrow> ExtWorker \<Rightarrow> Worker \<Rightarrow> NodeTemplate option" where
  "desiredNodeTemplate h values obj workerPool =
     (let (nodeTemplate, machineType) =
            findNodeTemplateAndMachineTypeByPoolName obj (Worker_Name workerPool);
          fromCloudProfile =
            (case FindMachineTypeByName h (Values_MachineTypes values)
                    (Machine_Type (Worker_Machine workerPool)) of
               Some machineDetails \<Rightarrow> Some (nodeTemplateFromMachineType machineDetails)
             | None \<Rightarrow> None)
      in case nodeTemplate of
           None \<Rightarrow> fromCloudProfile
         | Some t \<Rightarrow>
             if machineType \<noteq> Machine_Type (Worker_Machine workerPool) then fromCloudProfile
             else Some t)"

definition buildWorkerPool :: "env \<Rightarrow> Values \<Rightarrow> ExtWorker \<Rightarrow> Worker \<Rightarrow> panic + WorkerPool" where
  "buildWorkerPool h values obj workerPool =
     pbind (desiredUserData values (Worker_Name workerPool)) (\<lambda>userData.
     pbind (desiredKubernetesVersion h values workerPool) (\<lambda>workerPoolKubernetesVersion.
     pbind (deref (Worker_MaxSurge workerPool)) (\<lambda>maxSurge.
     pbind (deref (Worker_MaxUnavailable workerPool)) (\<lambda>maxUnavailable.
     pbind (NodeLabelsForWorkerPool h workerPool (Values_NodeLocalDNSEnabled values)) (\<lambda>labels.
     pbind (deref (Machine_Image (Worker_Machine workerPool))) (\<lambda>image.
     pbind (deref (ShootMachineImage_Version image)) (\<lambda>imageVersion.
       Inr \<lparr>WorkerPool_Name = Worker_Name workerPool,
            WorkerPool_Minimum = Worker_Minimum workerPool,
            WorkerPool_Maximum = Worker_Maximum workerPool,
            WorkerPool_MaxSurge = maxSurge,
            WorkerPool_MaxUnavailable = maxUnavailable,
            WorkerPool_Annotations = Worker_Annotations workerPool,
            WorkerPool_Labels = labels,
            WorkerPool_Taints = Worker_Taints workerPool,
            WorkerPool_MachineType = Machine_Type (Worker_Machine workerPool),
            WorkerPool_MachineImage =
              \<lparr>MachineImage_Name = ShootMachineImage_Name image,
               MachineImage_Version = imageVersion\<rparr>,
            WorkerPool_NodeTemplate = desiredNodeTemplate h values obj workerPool,
            WorkerPool_ProviderConfig =
              desiredProviderConfig (Worker_ProviderConfig workerPool),
            WorkerPool_UserData = userData,
            WorkerPool_Volume = desiredVolume (Worker_Volume workerPool),
            WorkerPool_DataVolumes = map desiredDataVolume (Worker_DataVolumes workerPool),
            WorkerPool_KubeletDataVolumeName = Worker_KubeletDataVolumeName workerPool,
            WorkerPool_KubernetesVersion = Some workerPoolKubernetesVersion,
            WorkerPool_Zones = Worker_Zones workerPool,
            WorkerPool_MachineControllerManagerSettings =
              Worker_MachineControllerManagerSettings workerPool,
            WorkerPool_Architecture = Machine_Architecture (Worker_Machine workerPool)\<rparr>)))))))"

text \<open>The loop itself: \<^verbatim>\<open>pools\<close> grows by \<^verbatim>\<open>append\<close>, a panic ends it.\<close>

fun buildPools ::
    "env \<Rightarrow> Values \<Rightarrow> ExtWorker \<Rightarrow> Worker list \<Rightarrow> WorkerPool list \<Rightarrow> panic + WorkerPool list" where
  "buildPools h values obj [] pools = Inr pools"
| "buildPools h values obj (workerPool # rest) pools =
     (case buildWorkerPool h values obj workerPool of
        Inl p \<Rightarrow> Inl p
      | Inr pool \<Rightarrow> buildPools h values obj rest (pools @ [pool]))"

subsection \<open>The mutation handed to the create-or-merge-patch call\<close>

definition SetMetaDataAnnotation :: "ObjectMeta \<Rightarrow> string \<Rightarrow> string \<Rightarrow> ObjectMeta" where
  "SetMetaDataAnnotation obj ann v =
     obj\<lparr>ObjectMeta_Annotations := (ObjectMeta_Annotations obj)(ann \<mapsto> v)\<rparr>"

definition desiredSpec :: "env \<Rightarrow> Values \<Rightarrow> string \<Rightarrow> WorkerPool list \<Rightarrow> WorkerSpec" where
  "desiredSpec h values namespace pools =
     \<lparr>WorkerSpec_DefaultSpec =
        \<lparr>DefaultSpec_Type = Values_Type values, DefaultSpec_ProviderConfig = None\<rparr>,
      WorkerSpec_Region = Values_Region values,
      WorkerSpec_SecretRef =
        \<lparr>SecretReference_Name = SecretNameCloudProvider h,
         SecretReference_Namespace = namespace\<rparr>,
      WorkerSpec_SSHPublicKey = Values_SSHPublicKey values,
      WorkerSpec_InfrastructureProviderStatus = Values_InfrastructureProviderStatus values,
      WorkerSpec_Pools = pools\<rparr>"

text \<open>
  The closure passed to \<^verbatim>\<open>GetAndCreateOrMergePatch\<close>.  It runs when the framework calls
  it: on the Worker object as the framework left it (\<open>wobj\<close>) and with the clock of that
  moment.  \<^verbatim>\<open>UTC()\<close> changes the location of the instant, not the instant.
\<close>

definition mutateWorker ::
    "env \<Rightarrow> 'c framework \<Rightarrow> string \<Rightarrow> Values \<Rightarrow> WorkerPool list \<Rightarrow> 'c \<Rightarrow> ExtWorker
       \<Rightarrow> ExtWorker \<times> error option" where
  "mutateWorker h fw operation values pools c wobj =
     (let meta1 = SetMetaDataAnnotation (ExtWorker_ObjectMeta wobj) (GardenerOperation h) operation;
          meta2 = SetMetaDataAnnotation meta1 (GardenerTimestamp h)
                    (FormatRFC3339Nano h (TimeNow fw c))
      in (wobj\<lparr>ExtWorker_ObjectMeta := meta2,
                ExtWorker_Spec :=
                  desiredSpec h values (ObjectMeta_Namespace (ExtWorker_ObjectMeta wobj)) pools\<rparr>,
          None))"

subsection \<open>deploy and Deploy\<close>

definition ObjectKeyFromObject :: "ExtWorker \<Rightarrow> ObjectKey" where
  "ObjectKeyFromObject obj =
     (ObjectMeta_Namespace (ExtWorker_ObjectMeta obj), ObjectMeta_Name (ExtWorker_ObjectMeta obj))"

definition workerKey :: "worker \<Rightarrow> ObjectKey" where
  "workerKey w =
     (ObjectMeta_Namespace (ExtWorker_ObjectMeta (worker_worker w)),
      ObjectMeta_Name (ExtWorker_ObjectMeta (worker_worker w)))"

definition deploy ::
    "env \<Rightarrow> 'c framework \<Rightarrow> string \<Rightarrow> 'c st \<Rightarrow> worker \<Rightarrow> 'c st \<times> worker \<times> deployResult" where
  "deploy h fw operation s w =
     (case client_Get fw (client s) (workerKey w) emptyWorker of
        (c1, obj, err) \<Rightarrow>
          let s1 = logCall s (CallGet (workerKey w)) c1
          in if (case err of None \<Rightarrow> False | Some e \<Rightarrow> \<not> IsNotFound e)
             then (s1, w, Inr (None, err))
             else
               (case buildPools h (worker_values w) obj (Values_Workers (worker_values w)) [] of
                  Inl p \<Rightarrow> (s1, w, Inl p)
                | Inr pools \<Rightarrow>
                    (case GetAndCreateOrMergePatch fw c1 (worker_worker w)
                            (mutateWorker h fw operation (worker_values w) pools) of
                       (c2, wobj, err2) \<Rightarrow>
                         (logCall s1 (CallGetAndCreateOrMergePatch (worker_worker w)) c2,
                          w\<lparr>worker_worker := wobj,
                            worker_machineDeploymentsLastUpdateTime :=
                              WorkerStatus_MachineDeploymentsLastUpdateTime (ExtWorker_Status obj)\<rparr>,
                          Inr (Some wobj, err2)))))"

definition Deploy :: "env \<Rightarrow> 'c framework \<Rightarrow> 'c st \<Rightarrow> worker \<Rightarrow> 'c st \<times> worker \<times> (panic + error option)" where
  "Deploy h fw s w =
     (case deploy h fw (GardenerOperationReconcile h) s w of
        (s', w', r) \<Rightarrow> (s', w', case r of Inl p \<Rightarrow> Inl p | Inr (_, err) \<Rightarrow> Inr err))"

subsection \<open>Restore\<close>

text \<open>
  \<^verbatim>\<open>Restore\<close> receives a pointer to a ShootState that its caller keeps.  ShootState objects
  live in a store, a list of cells addressed by their index; a pointer is an address or
  nil (\<open>None\<close>).
\<close>

type_synonym store = "ShootState list"

text \<open>
  Modelled from the spec: \<^verbatim>\<open>ShootState.DeepCopy\<close>, generated code that is not part of
  these sources.  A deep copy is a new object with the contents of the old one that
  shares no memory with it: a new cell at the end of the store.  The copy of nil is nil.
\<close>

definition ShootState_DeepCopy :: "store \<Rightarrow> nat option \<Rightarrow> store \<times> nat option" where
  "ShootState_DeepCopy heap p =
     (case p of
        None \<Rightarrow> (heap, None)
      | Some a \<Rightarrow> if a < length heap then (heap @ [heap ! a], Some (length heap)) else (heap, None))"

definition machineStateEntry :: "env \<Rightarrow> worker \<Rightarrow> bytes \<Rightarrow> ExtensionResourceState" where
  "machineStateEntry h w machineStateDecompressed =
     \<lparr>ExtensionResourceState_Kind = WorkerResource h,
      ExtensionResourceState_Name = Some (ObjectMeta_Name (ExtWorker_ObjectMeta (worker_worker w))),
      ExtensionResourceState_Purpose = None,
      ExtensionResourceState_State =
        Some \<lparr>RawExtension_Raw = machineStateDecompressed, RawExtension_Object = None\<rparr>\<rparr>"

text \<open>
  The backwards-compatibility step of \<^verbatim>\<open>Restore\<close> on the copy: the new contents of the
  copy, or the error of the decompression.
\<close>

definition migrateMachineState :: "env \<Rightarrow> worker \<Rightarrow> ShootState \<Rightarrow> error + ShootState" where
  "migrateMachineState h w shootStateCopy =
     (let gardenerData = ShootStateSpec_Gardener (ShootState_Spec shootStateCopy)
      in case GardenerResourceDataList_Get h gardenerData (DataTypeMachineState h) of
           None \<Rightarrow> Inr shootStateCopy
         | Some machineState \<Rightarrow>
             if GardenerResourceData_Type machineState = DataTypeMachineState h
             then (case DecompressMachineState h
                          (RawExtension_Raw (GardenerResourceData_Data machineState)) of
                     Inl err \<Rightarrow> Inl err
                   | Inr machineStateDecompressed \<Rightarrow>
                       Inr (shootStateCopy
                             \<lparr>ShootState_Spec := (ShootState_Spec shootStateCopy)
                                \<lparr>ShootStateSpec_Extensions :=
                                   ExtensionResourceStateList_Upsert h
                                     (ShootStateSpec_Extensions (ShootState_Spec shootStateCopy))
                                     (machineStateEntry h w machineStateDecompressed)\<rparr>\<rparr>))
             else Inr shootStateCopy)"

text \<open>
  The framework receives the pointer to the copy and no other pointer into the store: it
  reads and writes that cell only.
\<close>

definition Restore ::
    "env \<Rightarrow> 'c framework \<Rightarrow> 'c st \<Rightarrow> worker \<Rightarrow> store \<Rightarrow> nat option
       \<Rightarrow> 'c st \<times> worker \<times> store \<times> (panic + error option)" where
  "Restore h fw s w heap shootState =
     (case ShootState_DeepCopy heap shootState of
        (heap1, None) \<Rightarrow> (s, w, heap1, Inl NilPointerDereference)
      | (heap1, Some shootStateCopy) \<Rightarrow>
          (case migrateMachineState h w (heap1 ! shootStateCopy) of
             Inl err \<Rightarrow> (s, w, heap1, Inr (Some err))
           | Inr migrated \<Rightarrow>
               (case RestoreExtensionWithDeployFunction fw
                       (s\<lparr>calls := calls s @
                            [CallRestoreExtensionWithDeployFunction migrated (WorkerResource h)]\<rparr>)
                       w migrated (WorkerResource h) (deploy h fw) of
                  (s', w', shootState', r) \<Rightarrow>
                    (s', w', heap1[shootStateCopy := shootState'], r))))"

subsection \<open>Migrate, Destroy and the waiting operations\<close>

definition Migrate :: "'c framework \<Rightarrow> 'c st \<Rightarrow> worker \<Rightarrow> 'c st \<times> worker \<times> error option" where
  "Migrate fw s w =
     (case MigrateExtensionObject fw (client s) (worker_worker w) of
        (c, obj, err) \<Rightarrow>
          (logCall s (CallMigrateExtensionObject (worker_worker w)) c,
           w\<lparr>worker_worker := obj\<rparr>, err))"

definition Destroy :: "'c framework \<Rightarrow> 'c st \<Rightarrow> worker \<Rightarrow> 'c st \<times> worker \<times> error option" where
  "Destroy fw s w =
     (case DeleteExtensionObject fw (client s) (worker_worker w) of
        (c, obj, err) \<Rightarrow>
          (logCall s (CallDeleteExtensionObject (worker_worker w)) c,
           w\<lparr>worker_worker := obj\<rparr>, err))"

definition Wait :: "env \<Rightarrow> 'c framework \<Rightarrow> 'c st \<Rightarrow> worker \<Rightarrow> 'c st \<times> worker \<times> error option" where
  "Wait h fw s w =
     (case WaitUntilExtensionObjectReady fw (client s) (worker_worker w) (WorkerResource h)
             (worker_waitInterval w) (worker_waitSevereThreshold w) (worker_waitTimeout w) of
        (c, obj, err) \<Rightarrow>
          (logCall s
             (CallWaitUntilExtensionObjectReady (worker_worker w) (WorkerResource h)
                (worker_waitInterval w) (worker_waitSevereThreshold w) (worker_waitTimeout w)) c,
           w\<lparr>worker_worker := obj\<rparr>, err))"

definition checkWorkerStatusMachineDeploymentsUpdated :: "worker \<Rightarrow> Object \<Rightarrow> error option" where
  "checkWorkerStatusMachineDeploymentsUpdated w object =
     (case object of
        WorkerObject obj \<Rightarrow>
          if WorkerStatus_MachineDeploymentsLastUpdateTime (ExtWorker_Status obj) \<noteq> None
             \<and> (worker_machineDeploymentsLastUpdateTime w = None
                \<or> After (the (WorkerStatus_MachineDeploymentsLastUpdateTime (ExtWorker_Status obj)))
                     (the (worker_machineDeploymentsLastUpdateTime w)))
          then None
          else Some (ErrorString ''worker status machineDeployments has not been updated'')
      | _ \<Rightarrow> Some (ErrorString (''expected *extensionsv1alpha1.Worker but got '' @ typeName object)))"

text \<open>The closure run by the framework once the object is ready.\<close>

definition recordMachineDeployments :: "worker \<Rightarrow> worker \<times> error option" where
  "recordMachineDeployments w =
     (w\<lparr>worker_machineDeployments :=
          WorkerStatus_MachineDeployments (ExtWorker_Status (worker_worker w))\<rparr>, None)"

definition WaitUntilWorkerStatusMachineDeploymentsUpdated ::
    "env \<Rightarrow> 'c framework \<Rightarrow> 'c st \<Rightarrow> worker \<Rightarrow> 'c st \<times> worker \<times> error option" where
  "WaitUntilWorkerStatusMachineDeploymentsUpdated h fw s w =
     (case WaitUntilObjectReadyWithHealthFunction fw (client s) w
             checkWorkerStatusMachineDeploymentsUpdated (WorkerResource h)
             (worker_waitInterval w) (worker_waitSevereThreshold w) (worker_waitTimeout w)
             recordMachineDeployments of
        (c, w', err) \<Rightarrow>
          (logCall s
             (CallWaitUntilObjectReadyWithHealthFunction (worker_worker w) (WorkerResource h)
                (worker_waitInterval w) (worker_waitSevereThreshold w) (worker_waitTimeout w)) c,
           w', err))"

definition WaitMigrate :: "env \<Rightarrow> 'c framework \<Rightarrow> 'c st \<Rightarrow> worker \<Rightarrow> 'c st \<times> worker \<times> error option" where
  "WaitMigrate h fw s w =
     (case WaitUntilExtensionObjectMigrated fw (client s) (worker_worker w) (WorkerResource h)
             (worker_waitInterval w) (worker_waitTimeout w) of
        (c, obj, err) \<Rightarrow>
          (logCall s
             (CallWaitUntilExtensionObjectMigrated (worker_worker w) (WorkerResource h)
                (worker_waitInterval w) (worker_waitTimeout w)) c,
           w\<lparr>worker_worker := obj\<rparr>, err))"

definition WaitCleanup :: "env \<Rightarrow> 'c framework \<Rightarrow> 'c st \<Rightarrow> worker \<Rightarrow> 'c st \<times> worker \<times> error option" where
  "WaitCleanup h fw s w =
     (case WaitUntilExtensionObjectDeleted fw (client s) (worker_worker w) (WorkerResource h)
             (worker_waitInterval w) (worker_waitTimeout w) of
        (c, obj, err) \<Rightarrow>
          (logCall s
             (CallWaitUntilExtensionObjectDeleted (worker_worker w) (WorkerResource h)
                (worker_waitInterval w) (worker_waitTimeout w)) c,
           w\<lparr>worker_worker := obj\<rparr>, err))"

section \<open>The monitoring helper\<close>

definition namedIn :: "string \<Rightarrow> string \<Rightarrow> ObjectMeta" where
  "namedIn name namespace =
     emptyObjectMeta\<lparr>ObjectMeta_Name := name, ObjectMeta_Namespace := namespace\<rparr>"

definition alertmanagerObjects :: "env \<Rightarrow> string \<Rightarrow> Object list" where
  "alertmanagerObjects h namespace =
     [StatefulSetObject (namedIn (StatefulSetNameAlertManager h) namespace),
      IngressObject (namedIn ''alertmanager'' namespace),
      ServiceObject (namedIn ''alertmanager-client'' namespace),
      ServiceObject (namedIn ''alertmanager'' namespace),
      SecretObject (namedIn ''alertmanager-basic-auth'' namespace),
      SecretObject (namedIn ''alertmanager-config'' namespace),
      PersistentVolumeClaimObject (namedIn ''alertmanager-db-alertmanager-0'' namespace)]"

definition deleteAlertmanager :: "env \<Rightarrow> 'c framework \<Rightarrow> 'c st \<Rightarrow> string \<Rightarrow> 'c st \<times> error option" where
  "deleteAlertmanager h fw s namespace =
     (let objs = alertmanagerObjects h namespace
      in case DeleteObjects fw (client s) objs of
           (c, err) \<Rightarrow> (logCall s (CallDeleteObjects objs) c, err))"

section \<open>When the pool loop does not panic\<close>

text \<open>
  The nil-able fields that the loop dereferences itself are set, and the helper
  \<^verbatim>\<open>NodeLabelsForWorkerPool\<close> returns labels for the pool.
\<close>

definition poolComplete :: "env \<Rightarrow> Values \<Rightarrow> Worker \<Rightarrow> bool" where
  "poolComplete h values workerPool \<longleftrightarrow>
     Values_WorkerNameToOperatingSystemConfigsMap values (Worker_Name workerPool) \<noteq> Some None
     \<and> Values_KubernetesVersion values \<noteq> None
     \<and> Worker_MaxSurge workerPool \<noteq> None
     \<and> Worker_MaxUnavailable workerPool \<noteq> None
     \<and> (case NodeLabelsForWorkerPool h workerPool (Values_NodeLocalDNSEnabled values) of
           Inl p \<Rightarrow> False
         | Inr labels \<Rightarrow> True)
     \<and> (case Machine_Image (Worker_Machine workerPool) of
           None \<Rightarrow> False
         | Some img \<Rightarrow> ShootMachineImage_Version img \<noteq> None)"

definition valuesComplete :: "env \<Rightarrow> Values \<Rightarrow> bool" where
  "valuesComplete h values \<longleftrightarrow> list_all (poolComplete h values) (Values_Workers values)"

section \<open>A fake API server and concrete inputs\<close>

text \<open>
  An in-memory API server holding at most one Worker, with a clock and an error that its
  \<^verbatim>\<open>Get\<close> can be told to return, and stand-ins for the helpers of \<open>env\<close>: the labels
  need the architecture of the pool, \<^verbatim>\<open>Get\<close> on the Gardener data returns the first
  entry with the given name, decompression reverses the bytes.  They serve as concrete
  inputs only; no general statement below depends on them.
\<close>

record apiServer =
  apiServer_worker :: "ExtWorker option"
  apiServer_now :: Time
  apiServer_getError :: "error option"

fun upsertState ::
    "ExtensionResourceState list \<Rightarrow> ExtensionResourceState \<Rightarrow> ExtensionResourceState list" where
  "upsertState [] e = [e]"
| "upsertState (x # xs) e =
     (if ExtensionResourceState_Kind x = ExtensionResourceState_Kind e
         \<and> ExtensionResourceState_Name x = ExtensionResourceState_Name e
         \<and> ExtensionResourceState_Purpose x = ExtensionResourceState_Purpose e
      then x\<lparr>ExtensionResourceState_State := ExtensionResourceState_State e\<rparr> # xs
      else x # upsertState xs e)"

definition exampleEnv :: env where
  "exampleEnv =
     \<lparr>GardenerOperation = ''gardener.cloud/operation'',
      GardenerTimestamp = ''gardener.cloud/timestamp'',
      GardenerOperationReconcile = ''reconcile'',
      SecretNameCloudProvider = ''cloudprovider'',
      DataTypeMachineState = ''machine-state'',
      WorkerResource = ''Worker'',
      StatefulSetNameAlertManager = ''alertmanager'',
      NodeLabelsForWorkerPool = (\<lambda>workerPool _.
        case Machine_Architecture (Worker_Machine workerPool) of
          None \<Rightarrow> Inl NilPointerDereference
        | Some arch \<Rightarrow> Inr ((Worker_Labels workerPool)(''kubernetes.io/arch'' \<mapsto> arch))),
      FindMachineTypeByName = (\<lambda>machines name. find (\<lambda>m. MachineType_Name m = name) machines),
      SemverVersion_String = (\<lambda>_. ''1.27.1''),
      FormatRFC3339Nano = (\<lambda>_. ''2023-10-01T00:00:00Z''),
      GardenerResourceDataList_Get =
        (\<lambda>l name. find (\<lambda>d. GardenerResourceData_Name d = name) l),
      ExtensionResourceStateList_Upsert = upsertState,
      DecompressMachineState =
        (\<lambda>raw. if raw = [] then Inl (ErrorString ''unexpected EOF'') else Inr (rev raw))\<rparr>"

definition fakeFramework :: "apiServer framework" where
  "fakeFramework =
     \<lparr>TimeNow = apiServer_now,
      client_Get = (\<lambda>c key obj.
        case apiServer_getError c of
          Some e \<Rightarrow> (c, obj, Some e)
        | None \<Rightarrow>
            (case apiServer_worker c of
               None \<Rightarrow> (c, obj, Some (NotFoundError ''workers not found''))
             | Some stored \<Rightarrow>
                 if ObjectKeyFromObject stored = key then (c, stored, None)
                 else (c, obj, Some (NotFoundError ''workers not found'')))),
      GetAndCreateOrMergePatch = (\<lambda>c obj f.
        case f c (case apiServer_worker c of
                    None \<Rightarrow> obj
                  | Some stored \<Rightarrow>
                      if ObjectKeyFromObject stored = ObjectKeyFromObject obj then stored
                      else obj) of
          (obj', e) \<Rightarrow> (c\<lparr>apiServer_worker := Some obj'\<rparr>, obj', e)),
      RestoreExtensionWithDeployFunction = (\<lambda>s w shootState kind deployFunc.
        case deployFunc ''wait-for-state'' s w of
          (s', w', r) \<Rightarrow>
            (s', w', shootState, case r of Inl p \<Rightarrow> Inl p | Inr (_, err) \<Rightarrow> Inr err)),
      MigrateExtensionObject = (\<lambda>c obj. (c, obj, None)),
      DeleteExtensionObject = (\<lambda>c obj. (c\<lparr>apiServer_worker := None\<rparr>, obj, None)),
      WaitUntilExtensionObjectReady = (\<lambda>c obj kind i st t. (c, obj, None)),
      WaitUntilObjectReadyWithHealthFunction = (\<lambda>c w health kind i st t postReady.
        case health w (WorkerObject (worker_worker w)) of
          Some e \<Rightarrow> (c, w, Some e)
        | None \<Rightarrow> (case postReady w of (w', e) \<Rightarrow> (c, w', e))),
      WaitUntilExtensionObjectMigrated = (\<lambda>c obj kind i t. (c, obj, None)),
      WaitUntilExtensionObjectDeleted = (\<lambda>c obj kind i t. (c, obj, None)),
      DeleteObjects = (\<lambda>c objs. (c, None))\<rparr>"

definition exampleWorkerPool :: Worker where
  "exampleWorkerPool =
     \<lparr>Worker_Name = ''pool-a'',
      Worker_Minimum = 1,
      Worker_Maximum = 3,
      Worker_MaxSurge = Some (IntVal 1),
      Worker_MaxUnavailable = Some (IntVal 0),
      Worker_Annotations = Map.empty,
      Worker_Labels = Map.empty,
      Worker_Taints = [],
      Worker_Machine =
        \<lparr>Machine_Type = ''m5.large'',
         Machine_Image =
           Some \<lparr>ShootMachineImage_Name = ''gardenlinux'',
                 ShootMachineImage_Version = Some ''1312.3.0''\<rparr>,
         Machine_Architecture = Some ''amd64''\<rparr>,
      Worker_ProviderConfig = None,
      Worker_Volume = None,
      Worker_DataVolumes = [],
      Worker_KubeletDataVolumeName = None,
      Worker_Kubernetes = None,
      Worker_Zones = [''eu-west-1a''],
      Worker_MachineControllerManagerSettings = None\<rparr>"

definition exampleValues :: Values where
  "exampleValues =
     \<lparr>Values_Namespace = ''shoot--foo--bar'',
      Values_Name = ''bar'',
      Values_Type = ''aws'',
      Values_Region = ''eu-west-1'',
      Values_Workers = [exampleWorkerPool],
      Values_KubernetesVersion =
        Some \<lparr>SemverVersion_major = 1, SemverVersion_minor = 27, SemverVersion_patch = 1,
              SemverVersion_pre = [], SemverVersion_metadata = []\<rparr>,
      Values_MachineTypes =
        [\<lparr>MachineType_Name = ''m5.large'', MachineType_CPU = ''2'', MachineType_GPU = ''0'',
          MachineType_Memory = ''8Gi''\<rparr>],
      Values_SSHPublicKey = ''ssh-rsa AAAA'',
      Values_InfrastructureProviderStatus = None,
      Values_WorkerNameToOperatingSystemConfigsMap =
        [''pool-a'' \<mapsto>
           Some \<lparr>OperatingSystemConfigs_Downloader = \<lparr>Data_Content = ''#!/bin/bash''\<rparr>,
                 OperatingSystemConfigs_Original = \<lparr>Data_Content = []\<rparr>\<rparr>],
      Values_NodeLocalDNSEnabled = False\<rparr>"

definition exampleWorker :: worker where
  "exampleWorker = New exampleValues DefaultInterval DefaultSevereThreshold DefaultTimeout"

definition emptyServer :: "apiServer st" where
  "emptyServer =
     \<lparr>client =
        \<lparr>apiServer_worker = None,
         apiServer_now = \<lparr>Time_sec = 1696118400, Time_nsec = 0\<rparr>,
         apiServer_getError = None\<rparr>,
      calls = []\<rparr>"

text \<open>The pool that \<^verbatim>\<open>deploy\<close> builds from \<open>exampleWorkerPool\<close> when no Worker exists yet.\<close>

definition examplePool :: WorkerPool where
  "examplePool =
     \<lparr>WorkerPool_Name = ''pool-a'',
      WorkerPool_Minimum = 1,
      WorkerPool_Maximum = 3,
      WorkerPool_MaxSurge = IntVal 1,
      WorkerPool_MaxUnavailable = IntVal 0,
      WorkerPool_Annotations = Map.empty,
      WorkerPool_Labels = [''kubernetes.io/arch'' \<mapsto> ''amd64''],
      WorkerPool_Taints = [],
      WorkerPool_MachineType = ''m5.large'',
      WorkerPool_MachineImage =
        \<lparr>MachineImage_Name = ''gardenlinux'', MachineImage_Version = ''1312.3.0''\<rparr>,
      WorkerPool_NodeTemplate =
        Some \<lparr>NodeTemplate_Capacity = [''cpu'' \<mapsto> ''2'', ''gpu'' \<mapsto> ''0'', ''memory'' \<mapsto> ''8Gi'']\<rparr>,
      WorkerPool_ProviderConfig = None,
      WorkerPool_UserData = ''#!/bin/bash'',
      WorkerPool_Volume = None,
      WorkerPool_DataVolumes = [],
      WorkerPool_KubeletDataVolumeName = None,
      WorkerPool_KubernetesVersion = Some ''1.27.1'',
      WorkerPool_Zones = [''eu-west-1a''],
      WorkerPool_MachineControllerManagerSettings = None,
      WorkerPool_Architecture = Some ''amd64''\<rparr>"

text \<open>A Worker found on the server whose pool carries a node template of its own.\<close>

definition existingPool :: WorkerPool where
  "existingPool =
     examplePool\<lparr>WorkerPool_NodeTemplate :=
       Some \<lparr>NodeTemplate_Capacity = [''cpu'' \<mapsto> ''4'', ''gpu'' \<mapsto> ''1'', ''memory'' \<mapsto> ''16Gi'']\<rparr>\<rparr>"

definition existingWorker :: ExtWorker where
  "existingWorker =
     emptyWorker
       \<lparr>ExtWorker_ObjectMeta := emptyObjectMeta
          \<lparr>ObjectMeta_Name := ''bar'', ObjectMeta_Namespace := ''shoot--foo--bar'',
           ObjectMeta_ResourceVersion := ''42'',
           ObjectMeta_Labels := [''shoot.gardener.cloud/no-cleanup'' \<mapsto> ''true'']\<rparr>,
        ExtWorker_Spec := emptyWorkerSpec\<lparr>WorkerSpec_Pools := [existingPool]\<rparr>,
        ExtWorker_Status := emptyWorkerStatus
          \<lparr>WorkerStatus_MachineDeploymentsLastUpdateTime :=
             Some \<lparr>Time_sec = 1696118000, Time_nsec = 0\<rparr>\<rparr>\<rparr>"

text \<open>Values whose only pool has no \<^verbatim>\<open>MaxSurge\<close>, and a server whose \<^verbatim>\<open>Get\<close> fails.\<close>

definition incompleteValues :: Values where
  "incompleteValues =
     exampleValues\<lparr>Values_Workers := [exampleWorkerPool\<lparr>Worker_MaxSurge := None\<rparr>]\<rparr>"

definition brokenServer :: "apiServer st" where
  "brokenServer =
     emptyServer\<lparr>client := (client emptyServer)
       \<lparr>apiServer_getError := Some (APIError ''connection refused'')\<rparr>\<rparr>"

text \<open>
  A ShootState with a compressed machine state and no extension state, one whose machine
  state cannot be decompressed, and one without machine state.
\<close>

definition exampleShootState :: ShootState where
  "exampleShootState =
     \<lparr>ShootState_ObjectMeta = emptyObjectMeta
        \<lparr>ObjectMeta_Name := ''bar'', ObjectMeta_Namespace := ''garden-foo''\<rparr>,
      ShootState_Spec =
        \<lparr>ShootStateSpec_Gardener =
           [\<lparr>GardenerResourceData_Name = ''machine-state'',
             GardenerResourceData_Type = ''machine-state'',
             GardenerResourceData_Data =
               \<lparr>RawExtension_Raw = ''etats'', RawExtension_Object = None\<rparr>\<rparr>],
         ShootStateSpec_Extensions = []\<rparr>\<rparr>"

definition corruptShootState :: ShootState where
  "corruptShootState =
     exampleShootState\<lparr>ShootState_Spec := (ShootState_Spec exampleShootState)
       \<lparr>ShootStateSpec_Gardener :=
          [\<lparr>GardenerResourceData_Name = ''machine-state'',
            GardenerResourceData_Type = ''machine-state'',
            GardenerResourceData_Data =
              \<lparr>RawExtension_Raw = [], RawExtension_Object = None\<rparr>\<rparr>]\<rparr>\<rparr>"

definition plainShootState :: ShootState where
  "plainShootState =
     exampleShootState\<lparr>ShootState_Spec := (ShootState_Spec exampleShootState)
       \<lparr>ShootStateSpec_Gardener := []\<rparr>\<rparr>"

text \<open>A ShootState whose only entry has the type \<open>machine-state\<close> and another name.\<close>

definition otherNameShootState :: ShootState where
  "otherNameShootState =
     exampleShootState\<lparr>ShootState_Spec := (ShootState_Spec exampleShootState)
       \<lparr>ShootStateSpec_Gardener :=
          [\<lparr>GardenerResourceData_Name = ''other'',
            GardenerResourceData_Type = ''machine-state'',
            GardenerResourceData_Data =
              \<lparr>RawExtension_Raw = ''etats'', RawExtension_Object = None\<rparr>\<rparr>]\<rparr>\<rparr>"

text \<open>The copy of \<open>exampleShootState\<close> that \<^verbatim>\<open>Restore\<close> hands to the framework.\<close>

definition migratedShootState :: ShootState where
  "migratedShootState =
     exampleShootState\<lparr>ShootState_Spec := (ShootState_Spec exampleShootState)
       \<lparr>ShootStateSpec_Extensions :=
          [\<lparr>ExtensionResourceState_Kind = ''Worker'',
            ExtensionResourceState_Name = Some ''bar'',
            ExtensionResourceState_Purpose = None,
            ExtensionResourceState_State =
              Some \<lparr>RawExtension_Raw = ''state'', RawExtension_Object = None\<rparr>\<rparr>]\<rparr>\<rparr>"

text \<open>The server and the component after a \<^verbatim>\<open>Deploy\<close> of \<open>exampleWorker\<close> on the empty server.\<close>

definition deployedServer :: "apiServer st" where
  "deployedServer = fst (Deploy exampleEnv fakeFramework emptyServer exampleWorker)"

definition deployedWorker :: worker where
  "deployedWorker = fst (snd (Deploy exampleEnv fakeFramework emptyServer exampleWorker))"

section \<open>Components reachable from New\<close>

text \<open>
  What the component's operations cannot establish by themselves: that the framework
  returns the object it was given under the name and namespace it had.  For the calls
  that take a function of the component (the mutation, the deploy function, the
  function run when ready), the object keeps its key if that function keeps it.
\<close>

definition keepsObjectKey :: "'c framework \<Rightarrow> bool" where
  "keepsObjectKey fw \<longleftrightarrow>
     (\<forall>c obj f.
        (\<forall>c' obj'. ObjectKeyFromObject (fst (f c' obj')) = ObjectKeyFromObject obj')
        \<longrightarrow> ObjectKeyFromObject (fst (snd (GetAndCreateOrMergePatch fw c obj f)))
              = ObjectKeyFromObject obj)
     \<and> (\<forall>c obj. ObjectKeyFromObject (fst (snd (MigrateExtensionObject fw c obj)))
                   = ObjectKeyFromObject obj)
     \<and> (\<forall>c obj. ObjectKeyFromObject (fst (snd (DeleteExtensionObject fw c obj)))
                   = ObjectKeyFromObject obj)
     \<and> (\<forall>c obj kind i st t.
           ObjectKeyFromObject (fst (snd (WaitUntilExtensionObjectReady fw c obj kind i st t)))
             = ObjectKeyFromObject obj)
     \<and> (\<forall>c obj kind i t.
           ObjectKeyFromObject (fst (snd (WaitUntilExtensionObjectMigrated fw c obj kind i t)))
             = ObjectKeyFromObject obj)
     \<and> (\<forall>c obj kind i t.
           ObjectKeyFromObject (fst (snd (WaitUntilExtensionObjectDeleted fw c obj kind i t)))
             = ObjectKeyFromObject obj)
     \<and> (\<forall>c w health kind i st t postReady.
           (\<forall>w'. workerKey (fst (postReady w')) = workerKey w')
           \<longrightarrow> workerKey (fst (snd (WaitUntilObjectReadyWithHealthFunction fw c w health kind
                                         i st t postReady)))
                 = workerKey w)
     \<and> (\<forall>s w shootState kind deployFunc.
           (\<forall>operation s' w'. workerKey (fst (snd (deployFunc operation s' w'))) = workerKey w')
           \<longrightarrow> workerKey (fst (snd (RestoreExtensionWithDeployFunction fw s w shootState kind
                                         deployFunc)))
                 = workerKey w)"

text \<open>
  The components that \<^verbatim>\<open>New\<close> returns and that its operations, run in any state of the
  server and in any order, leave behind.
\<close>

inductive reachable ::
    "env \<Rightarrow> 'c framework \<Rightarrow> Values \<Rightarrow> Duration \<Rightarrow> Duration \<Rightarrow> Duration \<Rightarrow> worker \<Rightarrow> bool"
  for h fw v waitInterval waitSevereThreshold waitTimeout where
  reachable_New:
    "reachable h fw v waitInterval waitSevereThreshold waitTimeout
       (New v waitInterval waitSevereThreshold waitTimeout)"
| reachable_Deploy:
    "reachable h fw v waitInterval waitSevereThreshold waitTimeout w \<Longrightarrow>
     reachable h fw v waitInterval waitSevereThreshold waitTimeout (fst (snd (Deploy h fw s w)))"
| reachable_Restore:
    "reachable h fw v waitInterval waitSevereThreshold waitTimeout w \<Longrightarrow>
     reachable h fw v waitInterval waitSevereThreshold waitTimeout
       (fst (snd (Restore h fw s w heap shootState)))"
| reachable_Migrate:
    "reachable h fw v waitInterval waitSevereThreshold waitTimeout w \<Longrightarrow>
     reachable h fw v waitInterval waitSevereThreshold waitTimeout (fst (snd (Migrate fw s w)))"
| reachable_Destroy:
    "reachable h fw v waitInterval waitSevereThreshold waitTimeout w \<Longrightarrow>
     reachable h fw v waitInterval waitSevereThreshold waitTimeout (fst (snd (Destroy fw s w)))"
| reachable_Wait:
    "reachable h fw v waitInterval waitSevereThreshold waitTimeout w \<Longrightarrow>
     reachable h fw v waitInterval waitSevereThreshold waitTimeout (fst (snd (Wait h fw s w)))"
| reachable_WaitUntilWorkerStatusMachineDeploymentsUpdated:
    "reachable h fw v waitInterval waitSevereThreshold waitTimeout w \<Longrightarrow>
     reachable h fw v waitInterval waitSevereThreshold waitTimeout
       (fst (snd (WaitUntilWorkerStatusMachineDeploymentsUpdated h fw s w)))"
| reachable_WaitMigrate:
    "reachable h fw v waitInterval waitSevereThreshold waitTimeout w \<Longrightarrow>
     reachable h fw v waitInterval waitSevereThreshold waitTimeout (fst (snd (WaitMigrate h fw s w)))"
| reachable_WaitCleanup:
    "reachable h fw v waitInterval waitSevereThreshold waitTimeout w \<Longrightarrow>
     reachable h fw v waitInterval waitSevereThreshold waitTimeout (fst (snd (WaitCleanup h fw s w)))"
| reachable_SetSSHPublicKey:
    "reachable h fw v waitInterval waitSevereThreshold waitTimeout w \<Longrightarrow>
     reachable h fw v waitInterval waitSevereThreshold waitTimeout (SetSSHPublicKey w key)"
| reachable_SetInfrastructureProviderStatus:
    "reachable h fw v waitInterval waitSevereThreshold waitTimeout w \<Longrightarrow>
     reachable h fw v waitInterval waitSevereThreshold waitTimeout
       (SetInfrastructureProviderStatus w status)"
| reachable_SetWorkerNameToOperatingSystemConfigsMap:
    "reachable h fw v waitInterval waitSevereThreshold waitTimeout w \<Longrightarrow>
     reachable h fw v waitInterval waitSevereThreshold waitTimeout
       (SetWorkerNameToOperatingSystemConfigsMap w maps)"

section \<open>Observers of objects\<close>

fun objectKind :: "Object \<Rightarrow> string" where
  "objectKind (WorkerObject _) = ''Worker''"
| "objectKind (StatefulSetObject _) = ''StatefulSet''"
| "objectKind (IngressObject _) = ''Ingress''"
| "objectKind (ServiceObject _) = ''Service''"
| "objectKind (SecretObject _) = ''Secret''"
| "objectKind (PersistentVolumeClaimObject _) = ''PersistentVolumeClaim''"

fun objectMeta :: "Object \<Rightarrow> ObjectMeta" where
  "objectMeta (WorkerObject w) = ExtWorker_ObjectMeta w"
| "objectMeta (StatefulSetObject m) = m"
| "objectMeta (IngressObject m) = m"
| "objectMeta (ServiceObject m) = m"
| "objectMeta (SecretObject m) = m"
| "objectMeta (PersistentVolumeClaimObject m) = m"

definition objectIdentity :: "Object \<Rightarrow> string \<times> string \<times> string" where
  "objectIdentity ob =
     (objectKind ob, ObjectMeta_Name (objectMeta ob), ObjectMeta_Namespace (objectMeta ob))"

section \<open>Basic facts\<close>

lemma After_irrefl: "\<not> After t t"
  by (simp add: After_def)

lemma After_asym: "After t u \<Longrightarrow> \<not> After u t"
  by (auto simp: After_def)

lemma pbind_Inr_iff: "pbind m f = Inr y \<longleftrightarrow> (\<exists>x. m = Inr x \<and> f x = Inr y)"
  by (cases m) (simp_all add: pbind_def)

lemma deref_Inr_iff: "deref p = Inr x \<longleftrightarrow> p = Some x"
  by (cases p) (simp_all add: deref_def)

lemma buildPools_Inr_iff:
  "buildPools h values obj ws acc = Inr pools \<longleftrightarrow>
     (\<exists>ps. pools = acc @ ps \<and> list_all2 (\<lambda>w p. buildWorkerPool h values obj w = Inr p) ws ps)"
proof (induction ws arbitrary: acc)
  case Nil
  then show ?case by auto
next
  case (Cons workerPool rest)
  show ?case
  proof (cases "buildWorkerPool h values obj workerPool")
    case (Inl p)
    then show ?thesis by (auto simp: list_all2_Cons1)
  next
    case (Inr pool)
    then show ?thesis
      by (auto simp: Cons.IH list_all2_Cons1)
  qed
qed

lemma buildPools_nth:
  assumes "buildPools h values obj ws [] = Inr pools"
  shows "length pools = length ws"
    and "i < length pools \<Longrightarrow> buildWorkerPool h values obj (ws ! i) = Inr (pools ! i)"
  using assms by (auto simp: buildPools_Inr_iff list_all2_conv_all_nth)

lemma desiredUserData_Inr_iff:
  "desiredUserData values name = Inr d \<longleftrightarrow>
     (case Values_WorkerNameToOperatingSystemConfigsMap values name of
        None \<Rightarrow> d = []
      | Some None \<Rightarrow> False
      | Some (Some oscs) \<Rightarrow> d = Data_Content (OperatingSystemConfigs_Downloader oscs))"
  by (auto simp: desiredUserData_def pbind_def deref_def split: option.splits)

lemma pbind_ex: "(\<exists>y. pbind m f = Inr y) \<longleftrightarrow> (\<exists>x. m = Inr x \<and> (\<exists>y. f x = Inr y))"
  by (cases m) (simp_all add: pbind_def)

lemma desiredUserData_ex:
  "(\<exists>d. desiredUserData values name = Inr d) \<longleftrightarrow>
     Values_WorkerNameToOperatingSystemConfigsMap values name \<noteq> Some None"
  by (auto simp: desiredUserData_def pbind_def deref_def split: option.splits)

lemma desiredKubernetesVersion_ex:
  "(\<exists>v. desiredKubernetesVersion h values workerPool = Inr v) \<longleftrightarrow>
     Values_KubernetesVersion values \<noteq> None"
  by (auto simp: desiredKubernetesVersion_def pbind_def deref_def split: option.splits)

lemma buildWorkerPool_complete:
  "(\<exists>pool. buildWorkerPool h values obj workerPool = Inr pool)
     \<longleftrightarrow> poolComplete h values workerPool"
proof -
  have "(\<exists>pool. buildWorkerPool h values obj workerPool = Inr pool) \<longleftrightarrow>
          (\<exists>d. desiredUserData values (Worker_Name workerPool) = Inr d)
          \<and> (\<exists>v. desiredKubernetesVersion h values workerPool = Inr v)
          \<and> (\<exists>a. Worker_MaxSurge workerPool = Some a)
          \<and> (\<exists>b. Worker_MaxUnavailable workerPool = Some b)
          \<and> (\<exists>labels. NodeLabelsForWorkerPool h workerPool (Values_NodeLocalDNSEnabled values)
                         = Inr labels)
          \<and> (\<exists>img. Machine_Image (Worker_Machine workerPool) = Some img
                \<and> (\<exists>ver. ShootMachineImage_Version img = Some ver))"
    unfolding buildWorkerPool_def by (simp add: pbind_ex deref_Inr_iff)
  also have "\<dots> \<longleftrightarrow> poolComplete h values workerPool"
    unfolding desiredUserData_ex desiredKubernetesVersion_ex poolComplete_def
    by (auto split: option.splits sum.splits)
  finally show ?thesis .
qed

lemma buildPools_complete:
  "(\<exists>pools. buildPools h values obj ws acc = Inr pools)
     \<longleftrightarrow> list_all (poolComplete h values) ws"
proof (induction ws arbitrary: acc)
  case Nil
  then show ?case by simp
next
  case (Cons workerPool rest)
  show ?case
  proof (cases "buildWorkerPool h values obj workerPool")
    case (Inl p)
    with buildWorkerPool_complete [of h "values" obj workerPool] show ?thesis by simp
  next
    case (Inr pool)
    with buildWorkerPool_complete [of h "values" obj workerPool] Cons.IH [of "acc @ [pool]"]
    show ?thesis by auto
  qed
qed

lemma findInPools_none:
  "\<forall>pool \<in> set pools. WorkerPool_Name pool \<noteq> poolName \<Longrightarrow> findInPools pools poolName = (None, [])"
  by (induction pools) auto

lemma findInPools_first:
  "\<forall>p \<in> set pre. WorkerPool_Name p \<noteq> poolName \<Longrightarrow> WorkerPool_Name pool = poolName \<Longrightarrow>
   findInPools (pre @ pool # post) poolName = (WorkerPool_NodeTemplate pool, WorkerPool_MachineType pool)"
  by (induction pre) auto

lemma findInPools_Some:
  "findInPools pools poolName = (Some t, m) \<Longrightarrow>
     \<exists>pool \<in> set pools. WorkerPool_Name pool = poolName \<and> WorkerPool_NodeTemplate pool = Some t
        \<and> WorkerPool_MachineType pool = m"
  by (induction pools) (auto split: if_splits)

lemma buildWorkerPool_fields:
  assumes "buildWorkerPool h values obj workerPool = Inr pool"
  shows "WorkerPool_Name pool = Worker_Name workerPool"
    and "WorkerPool_NodeTemplate pool = desiredNodeTemplate h values obj workerPool"
    and "desiredUserData values (Worker_Name workerPool) = Inr (WorkerPool_UserData pool)"
    and "desiredKubernetesVersion h values workerPool
           = Inr (the (WorkerPool_KubernetesVersion pool))"
    and "WorkerPool_KubernetesVersion pool \<noteq> None"
  using assms by (auto simp: buildWorkerPool_def pbind_Inr_iff)

lemmas example_defs = exampleEnv_def exampleValues_def exampleWorkerPool_def examplePool_def
  existingPool_def existingWorker_def emptyWorker_def emptyWorkerSpec_def emptyWorkerStatus_def
  emptyObjectMeta_def

lemmas pool_defs = buildWorkerPool_def pbind_def deref_def desiredUserData_def
  desiredKubernetesVersion_def desiredNodeTemplate_def desiredProviderConfig_def
  desiredVolume_def findNodeTemplateAndMachineTypeByPoolName_def nodeTemplateFromMachineType_def

lemma buildPools_exampleValues_fresh:
  "buildPools exampleEnv exampleValues emptyWorker (Values_Workers exampleValues) []
     = Inr [examplePool]"
  by (simp add: example_defs pool_defs)

lemma buildPools_exampleValues_existing:
  "buildPools exampleEnv exampleValues existingWorker (Values_Workers exampleValues) []
     = Inr [existingPool]"
  by (simp add: example_defs pool_defs)

lemma valuesComplete_exampleValues: "valuesComplete exampleEnv exampleValues"
  by (simp add: valuesComplete_def poolComplete_def example_defs)

text \<open>With the stand-in for the labels, a pool without architecture makes the loop panic.\<close>

lemma nil_Architecture_not_complete:
  "\<not> valuesComplete exampleEnv
       (exampleValues\<lparr>Values_Workers :=
          [exampleWorkerPool\<lparr>Worker_Machine :=
             (Worker_Machine exampleWorkerPool)\<lparr>Machine_Architecture := None\<rparr>\<rparr>]\<rparr>)"
  by (simp add: valuesComplete_def poolComplete_def example_defs)

section \<open>The node template of a pool\<close>

text \<open>
  Claim C9.  Let \<open>pools\<close> be the pools built by \<^verbatim>\<open>deploy\<close> from \<open>values\<close> with \<open>obj\<close> the
  Worker object retrieved before.  For the \<open>i\<close>-th pool, built from the \<open>i\<close>-th entry of
  \<open>Values.Workers\<close>, let \<open>(nodeTemplate, machineType)\<close> be what
  \<^verbatim>\<open>findNodeTemplateAndMachineTypeByPoolName\<close> returns for the entry's name.  The pool's
  node template is \<open>nodeTemplate\<close> when that is non-nil and \<open>machineType\<close> is the entry's
  machine type; then \<open>obj.Spec.Pools\<close> contains a pool with that name, that node
  template and that machine type.  Otherwise the template holds the CPU, GPU and memory
  of the machine type that \<^verbatim>\<open>FindMachineTypeByName\<close> finds in \<open>Values.MachineTypes\<close>, and
  is nil when it finds none.  The lookup returns nil and the empty machine type when no
  pool of \<open>obj\<close> has the name, and the fields of the first pool with the name otherwise.
\<close>

theorem deploy_node_template:
  assumes "buildPools h values obj (Values_Workers values) [] = Inr pools"
      and "i < length pools"
  shows "(case findNodeTemplateAndMachineTypeByPoolName obj (Worker_Name (Values_Workers values ! i)) of
            (nodeTemplate, machineType) \<Rightarrow>
              WorkerPool_NodeTemplate (pools ! i) =
                (if nodeTemplate \<noteq> None
                    \<and> machineType = Machine_Type (Worker_Machine (Values_Workers values ! i))
                 then nodeTemplate
                 else (case FindMachineTypeByName h (Values_MachineTypes values)
                              (Machine_Type (Worker_Machine (Values_Workers values ! i))) of
                         Some machineDetails \<Rightarrow>
                           Some \<lparr>NodeTemplate_Capacity =
                                   [''cpu'' \<mapsto> MachineType_CPU machineDetails,
                                    ''gpu'' \<mapsto> MachineType_GPU machineDetails,
                                    ''memory'' \<mapsto> MachineType_Memory machineDetails]\<rparr>
                       | None \<Rightarrow> None))
              \<and> (nodeTemplate \<noteq> None
                    \<and> machineType = Machine_Type (Worker_Machine (Values_Workers values ! i))
                  \<longrightarrow> (\<exists>pool \<in> set (WorkerSpec_Pools (ExtWorker_Spec obj)).
                         WorkerPool_Name pool = Worker_Name (Values_Workers values ! i)
                         \<and> WorkerPool_NodeTemplate pool = nodeTemplate
                         \<and> WorkerPool_MachineType pool
                             = Machine_Type (Worker_Machine (Values_Workers values ! i)))))
         \<and> (\<forall>poolName.
               (\<forall>pool \<in> set (WorkerSpec_Pools (ExtWorker_Spec obj)). WorkerPool_Name pool \<noteq> poolName)
               \<longrightarrow> findNodeTemplateAndMachineTypeByPoolName obj poolName = (None, []))
         \<and> (\<forall>poolName pre pool post.
               WorkerSpec_Pools (ExtWorker_Spec obj) = pre @ pool # post
               \<and> (\<forall>p \<in> set pre. WorkerPool_Name p \<noteq> poolName)
               \<and> WorkerPool_Name pool = poolName
               \<longrightarrow> findNodeTemplateAndMachineTypeByPoolName obj poolName
                     = (WorkerPool_NodeTemplate pool, WorkerPool_MachineType pool))"
proof -
  let ?workerPool = "Values_Workers values ! i"
  have built: "buildWorkerPool h values obj ?workerPool = Inr (pools ! i)"
    using buildPools_nth(2) [OF assms(1) assms(2)] .
  have nt: "WorkerPool_NodeTemplate (pools ! i) = desiredNodeTemplate h values obj ?workerPool"
    using buildWorkerPool_fields(2) [OF built] .
  obtain nodeTemplate machineType
    where f: "findNodeTemplateAndMachineTypeByPoolName obj (Worker_Name ?workerPool)
                = (nodeTemplate, machineType)"
    by (cases "findNodeTemplateAndMachineTypeByPoolName obj (Worker_Name ?workerPool)")
  have a: "WorkerPool_NodeTemplate (pools ! i) =
             (if nodeTemplate \<noteq> None \<and> machineType = Machine_Type (Worker_Machine ?workerPool)
              then nodeTemplate
              else (case FindMachineTypeByName h (Values_MachineTypes values)
                           (Machine_Type (Worker_Machine ?workerPool)) of
                      Some machineDetails \<Rightarrow>
                        Some \<lparr>NodeTemplate_Capacity =
                                [''cpu'' \<mapsto> MachineType_CPU machineDetails,
                                 ''gpu'' \<mapsto> MachineType_GPU machineDetails,
                                 ''memory'' \<mapsto> MachineType_Memory machineDetails]\<rparr>
                    | None \<Rightarrow> None))"
    unfolding nt desiredNodeTemplate_def f nodeTemplateFromMachineType_def
    by (cases nodeTemplate) simp_all
  have b: "nodeTemplate \<noteq> None \<and> machineType = Machine_Type (Worker_Machine ?workerPool)
           \<longrightarrow> (\<exists>pool \<in> set (WorkerSpec_Pools (ExtWorker_Spec obj)).
                  WorkerPool_Name pool = Worker_Name ?workerPool
                  \<and> WorkerPool_NodeTemplate pool = nodeTemplate
                  \<and> WorkerPool_MachineType pool = Machine_Type (Worker_Machine ?workerPool))"
    using f findInPools_Some [of "WorkerSpec_Pools (ExtWorker_Spec obj)" "Worker_Name ?workerPool"]
    by (auto simp: findNodeTemplateAndMachineTypeByPoolName_def)
  have c: "\<forall>poolName.
             (\<forall>pool \<in> set (WorkerSpec_Pools (ExtWorker_Spec obj)). WorkerPool_Name pool \<noteq> poolName)
             \<longrightarrow> findNodeTemplateAndMachineTypeByPoolName obj poolName = (None, [])"
    by (simp add: findNodeTemplateAndMachineTypeByPoolName_def findInPools_none)
  have d: "\<forall>poolName pre pool post.
             WorkerSpec_Pools (ExtWorker_Spec obj) = pre @ pool # post
             \<and> (\<forall>p \<in> set pre. WorkerPool_Name p \<noteq> poolName)
             \<and> WorkerPool_Name pool = poolName
             \<longrightarrow> findNodeTemplateAndMachineTypeByPoolName obj poolName
                   = (WorkerPool_NodeTemplate pool, WorkerPool_MachineType pool)"
    by (simp add: findNodeTemplateAndMachineTypeByPoolName_def findInPools_first)
  from a b c d show ?thesis unfolding f by simp
qed

text \<open>
  The existing Worker has a pool \<open>pool-a\<close> of the desired machine type with a node
  template of 4 CPUs: the template is reused, not rebuilt from the machine type's 2 CPUs.
\<close>

theorem deploy_node_template_witness:
  "buildPools exampleEnv exampleValues existingWorker (Values_Workers exampleValues) []
     = Inr [existingPool]
   \<and> (0::nat) < length [existingPool]
   \<and> findNodeTemplateAndMachineTypeByPoolName existingWorker ''pool-a''
       = (Some \<lparr>NodeTemplate_Capacity = [''cpu'' \<mapsto> ''4'', ''gpu'' \<mapsto> ''1'', ''memory'' \<mapsto> ''16Gi'']\<rparr>,
          ''m5.large'')
   \<and> WorkerPool_NodeTemplate ([existingPool] ! 0)
       = Some \<lparr>NodeTemplate_Capacity = [''cpu'' \<mapsto> ''4'', ''gpu'' \<mapsto> ''1'', ''memory'' \<mapsto> ''16Gi'']\<rparr>"
proof -
  have h1: "buildPools exampleEnv exampleValues existingWorker (Values_Workers exampleValues) []
              = Inr [existingPool]"
    by (rule buildPools_exampleValues_existing)
  have h2: "(0::nat) < length [existingPool]"
    by simp
  have f: "findNodeTemplateAndMachineTypeByPoolName existingWorker ''pool-a''
       = (Some \<lparr>NodeTemplate_Capacity = [''cpu'' \<mapsto> ''4'', ''gpu'' \<mapsto> ''1'', ''memory'' \<mapsto> ''16Gi'']\<rparr>,
          ''m5.large'')"
    by (simp add: example_defs findNodeTemplateAndMachineTypeByPoolName_def)
  have w: "Worker_Name (Values_Workers exampleValues ! 0) = ''pool-a''"
          "Machine_Type (Worker_Machine (Values_Workers exampleValues ! 0)) = ''m5.large''"
    by (simp_all add: example_defs)
  from deploy_node_template [OF h1 h2] have
    "WorkerPool_NodeTemplate ([existingPool] ! 0)
       = Some \<lparr>NodeTemplate_Capacity = [''cpu'' \<mapsto> ''4'', ''gpu'' \<mapsto> ''1'', ''memory'' \<mapsto> ''16Gi'']\<rparr>"
    unfolding w f by simp
  with h1 h2 f show ?thesis by simp
qed

section \<open>The health check of the machine deployments\<close>

text \<open>
  Claim C8.  \<^verbatim>\<open>checkWorkerStatusMachineDeploymentsUpdated\<close> returns nil exactly when the
  object is a Worker whose status \<^verbatim>\<open>MachineDeploymentsLastUpdateTime\<close> is set and the time
  recorded before the reconciliation is nil or strictly earlier than the status time.
  In every other case (an object of another type, no status time, a status time equal
  to or earlier than the recorded one) it returns an error.
\<close>

theorem checkWorkerStatusMachineDeploymentsUpdated_nil_iff:
  "(checkWorkerStatusMachineDeploymentsUpdated w object = None \<longleftrightarrow>
      (\<exists>obj t. object = WorkerObject obj
         \<and> WorkerStatus_MachineDeploymentsLastUpdateTime (ExtWorker_Status obj) = Some t
         \<and> (case worker_machineDeploymentsLastUpdateTime w of
               None \<Rightarrow> True
             | Some u \<Rightarrow> After t u)))
   \<and> ((\<forall>obj. object \<noteq> WorkerObject obj)
        \<longrightarrow> checkWorkerStatusMachineDeploymentsUpdated w object \<noteq> None)
   \<and> (\<forall>obj. object = WorkerObject obj
          \<and> WorkerStatus_MachineDeploymentsLastUpdateTime (ExtWorker_Status obj) = None
        \<longrightarrow> checkWorkerStatusMachineDeploymentsUpdated w object \<noteq> None)
   \<and> (\<forall>obj t u. object = WorkerObject obj
          \<and> WorkerStatus_MachineDeploymentsLastUpdateTime (ExtWorker_Status obj) = Some t
          \<and> worker_machineDeploymentsLastUpdateTime w = Some u
          \<and> (t = u \<or> After u t)
        \<longrightarrow> checkWorkerStatusMachineDeploymentsUpdated w object \<noteq> None)"
proof -
  have iff: "checkWorkerStatusMachineDeploymentsUpdated w object = None \<longleftrightarrow>
      (\<exists>obj t. object = WorkerObject obj
         \<and> WorkerStatus_MachineDeploymentsLastUpdateTime (ExtWorker_Status obj) = Some t
         \<and> (case worker_machineDeploymentsLastUpdateTime w of
               None \<Rightarrow> True
             | Some u \<Rightarrow> After t u))"
    by (cases object)
       (auto simp: checkWorkerStatusMachineDeploymentsUpdated_def split: option.splits)
  have later: "\<And>t u. t = u \<or> After u t \<Longrightarrow> \<not> After t u"
    using After_irrefl After_asym by blast
  show ?thesis
    unfolding iff using later by (auto split: option.splits)
qed

text \<open>
  The Worker on the server was last updated at second 1696118000.  With second
  1696117000 recorded before the reconciliation the check passes; with the same instant
  recorded it fails; a StatefulSet fails it.
\<close>

theorem checkWorkerStatusMachineDeploymentsUpdated_nil_iff_witness:
  "checkWorkerStatusMachineDeploymentsUpdated
     (exampleWorker\<lparr>worker_machineDeploymentsLastUpdateTime :=
        Some \<lparr>Time_sec = 1696117000, Time_nsec = 0\<rparr>\<rparr>)
     (WorkerObject existingWorker) = None
   \<and> checkWorkerStatusMachineDeploymentsUpdated
       (exampleWorker\<lparr>worker_machineDeploymentsLastUpdateTime :=
          Some \<lparr>Time_sec = 1696118000, Time_nsec = 0\<rparr>\<rparr>)
       (WorkerObject existingWorker) \<noteq> None
   \<and> checkWorkerStatusMachineDeploymentsUpdated exampleWorker
       (StatefulSetObject emptyObjectMeta) \<noteq> None"
proof -
  let ?w1 = "exampleWorker\<lparr>worker_machineDeploymentsLastUpdateTime :=
               Some \<lparr>Time_sec = 1696117000, Time_nsec = 0\<rparr>\<rparr>"
  let ?w2 = "exampleWorker\<lparr>worker_machineDeploymentsLastUpdateTime :=
               Some \<lparr>Time_sec = 1696118000, Time_nsec = 0\<rparr>\<rparr>"
  have s: "WorkerStatus_MachineDeploymentsLastUpdateTime (ExtWorker_Status existingWorker)
             = Some \<lparr>Time_sec = 1696118000, Time_nsec = 0\<rparr>"
    by (simp add: example_defs)
  have a: "checkWorkerStatusMachineDeploymentsUpdated ?w1 (WorkerObject existingWorker) = None"
    using checkWorkerStatusMachineDeploymentsUpdated_nil_iff
            [of ?w1 "WorkerObject existingWorker"] s
    by (simp add: After_def)
  have b: "checkWorkerStatusMachineDeploymentsUpdated ?w2 (WorkerObject existingWorker) \<noteq> None"
    using checkWorkerStatusMachineDeploymentsUpdated_nil_iff
            [of ?w2 "WorkerObject existingWorker"] s
    by (simp add: After_def)
  have c: "checkWorkerStatusMachineDeploymentsUpdated exampleWorker
             (StatefulSetObject emptyObjectMeta) \<noteq> None"
    using checkWorkerStatusMachineDeploymentsUpdated_nil_iff
            [of exampleWorker "StatefulSetObject emptyObjectMeta"]
    by simp
  from a b c show ?thesis by simp
qed

section \<open>The three ways through deploy\<close>

lemma deploy_get_fails:
  assumes "client_Get fw (client s) (workerKey w) emptyWorker = (c1, obj, Some e)"
      and "\<not> IsNotFound e"
  shows "deploy h fw operation s w = (logCall s (CallGet (workerKey w)) c1, w, Inr (None, Some e))"
  using assms by (simp add: deploy_def)

lemma deploy_panics:
  assumes "client_Get fw (client s) (workerKey w) emptyWorker = (c1, obj, err)"
      and "case err of None \<Rightarrow> True | Some e \<Rightarrow> IsNotFound e"
      and "buildPools h (worker_values w) obj (Values_Workers (worker_values w)) [] = Inl p"
  shows "deploy h fw operation s w = (logCall s (CallGet (workerKey w)) c1, w, Inl p)"
  using assms by (cases err) (simp_all add: deploy_def)

lemma deploy_proceeds:
  assumes "client_Get fw (client s) (workerKey w) emptyWorker = (c1, obj, err)"
      and "case err of None \<Rightarrow> True | Some e \<Rightarrow> IsNotFound e"
      and "buildPools h (worker_values w) obj (Values_Workers (worker_values w)) [] = Inr pools"
      and "GetAndCreateOrMergePatch fw c1 (worker_worker w)
             (mutateWorker h fw operation (worker_values w) pools) = (c2, wobj, err2)"
  shows "deploy h fw operation s w =
           (logCall (logCall s (CallGet (workerKey w)) c1)
              (CallGetAndCreateOrMergePatch (worker_worker w)) c2,
            w\<lparr>worker_worker := wobj,
              worker_machineDeploymentsLastUpdateTime :=
                WorkerStatus_MachineDeploymentsLastUpdateTime (ExtWorker_Status obj)\<rparr>,
            Inr (Some wobj, err2))"
  using assms by (cases err) (simp_all add: deploy_def)

lemma deploy_calls:
  "\<exists>rest. calls (fst (deploy h fw operation s w)) = calls s @ CallGet (workerKey w) # rest
          \<and> set rest \<subseteq> {CallGetAndCreateOrMergePatch (worker_worker w)}"
  by (auto simp: deploy_def logCall_def Let_def split: prod.splits option.splits sum.splits)

section \<open>The desired spec\<close>

text \<open>
  Claim C1, as amended.  Take Values with which the pool loop does not panic: for every
  entry of \<open>Values.Workers\<close>, \<open>MaxSurge\<close>, \<open>MaxUnavailable\<close>, \<open>Machine.Image\<close> and
  \<open>Machine.Image.Version\<close> are non-nil, \<open>Values.KubernetesVersion\<close> is non-nil, the
  operating system config map does not hold nil under the entry's name, and
  \<^verbatim>\<open>NodeLabelsForWorkerPool\<close> returns labels for the entry.  When the initial Get
  succeeds or fails with a not-found error, \<^verbatim>\<open>deploy\<close> builds one pool per entry of
  \<open>Values.Workers\<close>, in the same order, and hands the create-or-merge-patch call a
  mutation that sets the spec of the Worker to: type \<open>Values.Type\<close>, region
  \<open>Values.Region\<close>, the cloud-provider secret in the Worker's own namespace, the SSH key
  and infrastructure status of Values, and these pools.  The user data of a pool is the
  Downloader content stored under the pool's name, empty when the name is no key of the
  map; its Kubernetes version is the pool's own \<open>Kubernetes.Version\<close> when that is set,
  and \<open>Values.KubernetesVersion\<close> otherwise.
\<close>

theorem deploy_desired_spec:
  assumes complete: "valuesComplete h (worker_values w)"
      and get: "client_Get fw (client s) (workerKey w) emptyWorker = (c1, obj, err)"
      and found: "case err of None \<Rightarrow> True | Some e \<Rightarrow> IsNotFound e"
  shows "\<exists>pools.
      buildPools h (worker_values w) obj (Values_Workers (worker_values w)) [] = Inr pools
    \<and> (case GetAndCreateOrMergePatch fw c1 (worker_worker w)
               (mutateWorker h fw operation (worker_values w) pools) of
          (c2, wobj, err2) \<Rightarrow>
             snd (snd (deploy h fw operation s w)) = Inr (Some wobj, err2)
             \<and> calls (fst (deploy h fw operation s w))
                 = calls s @ [CallGet (workerKey w),
                              CallGetAndCreateOrMergePatch (worker_worker w)])
    \<and> (\<forall>c wobj.
          case mutateWorker h fw operation (worker_values w) pools c wobj of
            (desired, merr) \<Rightarrow>
               merr = None
               \<and> DefaultSpec_Type (WorkerSpec_DefaultSpec (ExtWorker_Spec desired))
                   = Values_Type (worker_values w)
               \<and> WorkerSpec_Region (ExtWorker_Spec desired) = Values_Region (worker_values w)
               \<and> WorkerSpec_SecretRef (ExtWorker_Spec desired)
                   = \<lparr>SecretReference_Name = SecretNameCloudProvider h,
                      SecretReference_Namespace
                        = ObjectMeta_Namespace (ExtWorker_ObjectMeta desired)\<rparr>
               \<and> WorkerSpec_SSHPublicKey (ExtWorker_Spec desired)
                   = Values_SSHPublicKey (worker_values w)
               \<and> WorkerSpec_InfrastructureProviderStatus (ExtWorker_Spec desired)
                   = Values_InfrastructureProviderStatus (worker_values w)
               \<and> WorkerSpec_Pools (ExtWorker_Spec desired) = pools)
    \<and> length pools = length (Values_Workers (worker_values w))
    \<and> (\<forall>i < length pools.
          buildWorkerPool h (worker_values w) obj (Values_Workers (worker_values w) ! i)
            = Inr (pools ! i)
          \<and> WorkerPool_Name (pools ! i) = Worker_Name (Values_Workers (worker_values w) ! i)
          \<and> WorkerPool_UserData (pools ! i)
              = (case Values_WorkerNameToOperatingSystemConfigsMap (worker_values w)
                        (Worker_Name (Values_Workers (worker_values w) ! i)) of
                   Some (Some oscs) \<Rightarrow> Data_Content (OperatingSystemConfigs_Downloader oscs)
                 | _ \<Rightarrow> [])
          \<and> Values_KubernetesVersion (worker_values w) \<noteq> None
          \<and> WorkerPool_KubernetesVersion (pools ! i)
              = Some (case Worker_Kubernetes (Values_Workers (worker_values w) ! i) of
                        None \<Rightarrow>
                          SemverVersion_String h (the (Values_KubernetesVersion (worker_values w)))
                      | Some k \<Rightarrow>
                          (case WorkerKubernetes_Version k of
                             None \<Rightarrow>
                               SemverVersion_String h
                                 (the (Values_KubernetesVersion (worker_values w)))
                           | Some version \<Rightarrow> version)))"
proof -
  let ?vals = "worker_values w"
  from complete obtain pools
    where built: "buildPools h ?vals obj (Values_Workers ?vals) [] = Inr pools"
    unfolding valuesComplete_def
    using buildPools_complete [of h ?vals obj "Values_Workers ?vals" "[]"] by blast
  obtain c2 wobj err2
    where patch: "GetAndCreateOrMergePatch fw c1 (worker_worker w)
                    (mutateWorker h fw operation ?vals pools) = (c2, wobj, err2)"
    by (cases "GetAndCreateOrMergePatch fw c1 (worker_worker w)
                 (mutateWorker h fw operation ?vals pools)")
  have dep: "snd (snd (deploy h fw operation s w)) = Inr (Some wobj, err2)
             \<and> calls (fst (deploy h fw operation s w))
                 = calls s @ [CallGet (workerKey w), CallGetAndCreateOrMergePatch (worker_worker w)]"
    unfolding deploy_proceeds [OF get found built patch] by (simp add: logCall_def)
  have mut: "\<And>c wobj. case mutateWorker h fw operation ?vals pools c wobj of
            (desired, merr) \<Rightarrow>
               merr = None
               \<and> DefaultSpec_Type (WorkerSpec_DefaultSpec (ExtWorker_Spec desired))
                   = Values_Type ?vals
               \<and> WorkerSpec_Region (ExtWorker_Spec desired) = Values_Region ?vals
               \<and> WorkerSpec_SecretRef (ExtWorker_Spec desired)
                   = \<lparr>SecretReference_Name = SecretNameCloudProvider h,
                      SecretReference_Namespace
                        = ObjectMeta_Namespace (ExtWorker_ObjectMeta desired)\<rparr>
               \<and> WorkerSpec_SSHPublicKey (ExtWorker_Spec desired) = Values_SSHPublicKey ?vals
               \<and> WorkerSpec_InfrastructureProviderStatus (ExtWorker_Spec desired)
                   = Values_InfrastructureProviderStatus ?vals
               \<and> WorkerSpec_Pools (ExtWorker_Spec desired) = pools"
    by (simp add: mutateWorker_def Let_def desiredSpec_def SetMetaDataAnnotation_def)
  have len: "length pools = length (Values_Workers ?vals)"
    using buildPools_nth(1) [OF built] .
  have each: "\<forall>i < length pools.
          buildWorkerPool h ?vals obj (Values_Workers ?vals ! i) = Inr (pools ! i)
          \<and> WorkerPool_Name (pools ! i) = Worker_Name (Values_Workers ?vals ! i)
          \<and> WorkerPool_UserData (pools ! i)
              = (case Values_WorkerNameToOperatingSystemConfigsMap ?vals
                        (Worker_Name (Values_Workers ?vals ! i)) of
                   Some (Some oscs) \<Rightarrow> Data_Content (OperatingSystemConfigs_Downloader oscs)
                 | _ \<Rightarrow> [])
          \<and> Values_KubernetesVersion ?vals \<noteq> None
          \<and> WorkerPool_KubernetesVersion (pools ! i)
              = Some (case Worker_Kubernetes (Values_Workers ?vals ! i) of
                        None \<Rightarrow> SemverVersion_String h (the (Values_KubernetesVersion ?vals))
                      | Some k \<Rightarrow>
                          (case WorkerKubernetes_Version k of
                             None \<Rightarrow> SemverVersion_String h (the (Values_KubernetesVersion ?vals))
                           | Some version \<Rightarrow> version))"
  proof (intro allI impI)
    fix i assume i: "i < length pools"
    let ?workerPool = "Values_Workers ?vals ! i"
    have b: "buildWorkerPool h ?vals obj ?workerPool = Inr (pools ! i)"
      using buildPools_nth(2) [OF built i] .
    note f = buildWorkerPool_fields [OF b]
    have kv: "Values_KubernetesVersion ?vals \<noteq> None"
      using f(4) by (auto simp: desiredKubernetesVersion_def pbind_def deref_def split: option.splits)
    have ud: "WorkerPool_UserData (pools ! i)
              = (case Values_WorkerNameToOperatingSystemConfigsMap ?vals (Worker_Name ?workerPool) of
                   Some (Some oscs) \<Rightarrow> Data_Content (OperatingSystemConfigs_Downloader oscs)
                 | _ \<Rightarrow> [])"
      using f(3) unfolding desiredUserData_Inr_iff by (auto split: option.splits)
    have ver: "WorkerPool_KubernetesVersion (pools ! i)
              = Some (case Worker_Kubernetes ?workerPool of
                        None \<Rightarrow> SemverVersion_String h (the (Values_KubernetesVersion ?vals))
                      | Some k \<Rightarrow>
                          (case WorkerKubernetes_Version k of
                             None \<Rightarrow> SemverVersion_String h (the (Values_KubernetesVersion ?vals))
                           | Some version \<Rightarrow> version))"
      using f(4) f(5) kv
      by (auto simp: desiredKubernetesVersion_def pbind_def deref_def split: option.splits)
    from b f(1) ud kv ver
    show "buildWorkerPool h ?vals obj ?workerPool = Inr (pools ! i)
          \<and> WorkerPool_Name (pools ! i) = Worker_Name ?workerPool
          \<and> WorkerPool_UserData (pools ! i)
              = (case Values_WorkerNameToOperatingSystemConfigsMap ?vals (Worker_Name ?workerPool) of
                   Some (Some oscs) \<Rightarrow> Data_Content (OperatingSystemConfigs_Downloader oscs)
                 | _ \<Rightarrow> [])
          \<and> Values_KubernetesVersion ?vals \<noteq> None
          \<and> WorkerPool_KubernetesVersion (pools ! i)
              = Some (case Worker_Kubernetes ?workerPool of
                        None \<Rightarrow> SemverVersion_String h (the (Values_KubernetesVersion ?vals))
                      | Some k \<Rightarrow>
                          (case WorkerKubernetes_Version k of
                             None \<Rightarrow> SemverVersion_String h (the (Values_KubernetesVersion ?vals))
                           | Some version \<Rightarrow> version))"
      by simp
  qed
  from built dep mut len each patch show ?thesis
    by (intro exI [of _ pools]) simp
qed

lemma exampleWorker_values: "worker_values exampleWorker = exampleValues"
  by (simp add: exampleWorker_def New_def)

lemma exampleWorker_key: "workerKey exampleWorker = (''shoot--foo--bar'', ''bar'')"
  by (simp add: exampleWorker_def New_def workerKey_def exampleValues_def emptyWorker_def
      emptyObjectMeta_def)

lemma emptyServer_Get:
  "client_Get fakeFramework (client emptyServer) key emptyWorker
     = (client emptyServer, emptyWorker, Some (NotFoundError ''workers not found''))"
  by (simp add: fakeFramework_def emptyServer_def)

lemma brokenServer_Get:
  "client_Get fakeFramework (client brokenServer) key emptyWorker
     = (client brokenServer, emptyWorker, Some (APIError ''connection refused''))"
  by (simp add: fakeFramework_def brokenServer_def emptyServer_def)

text \<open>
  On the empty server the Get of \<open>exampleWorker\<close> is answered with not-found; \<^verbatim>\<open>deploy\<close>
  issues the Get and the create-or-merge-patch call.
\<close>

theorem deploy_desired_spec_witness:
  "valuesComplete exampleEnv (worker_values exampleWorker)
   \<and> client_Get fakeFramework (client emptyServer) (workerKey exampleWorker) emptyWorker
       = (client emptyServer, emptyWorker, Some (NotFoundError ''workers not found''))
   \<and> IsNotFound (NotFoundError ''workers not found'')
   \<and> calls (fst (deploy exampleEnv fakeFramework ''reconcile'' emptyServer exampleWorker))
       = [CallGet (''shoot--foo--bar'', ''bar''),
          CallGetAndCreateOrMergePatch (worker_worker exampleWorker)]"
proof -
  have h1: "valuesComplete exampleEnv (worker_values exampleWorker)"
    unfolding exampleWorker_values by (rule valuesComplete_exampleValues)
  have h2: "client_Get fakeFramework (client emptyServer) (workerKey exampleWorker) emptyWorker
              = (client emptyServer, emptyWorker, Some (NotFoundError ''workers not found''))"
    by (rule emptyServer_Get)
  have h3: "case Some (NotFoundError ''workers not found'') of
              None \<Rightarrow> True | Some e \<Rightarrow> IsNotFound e"
    by simp
  from deploy_desired_spec [OF h1 h2 h3, of "''reconcile''"]
  obtain pools where
    p: "case GetAndCreateOrMergePatch fakeFramework (client emptyServer) (worker_worker exampleWorker)
               (mutateWorker exampleEnv fakeFramework ''reconcile'' (worker_values exampleWorker) pools) of
          (c2, wobj, err2) \<Rightarrow>
             snd (snd (deploy exampleEnv fakeFramework ''reconcile'' emptyServer exampleWorker))
               = Inr (Some wobj, err2)
             \<and> calls (fst (deploy exampleEnv fakeFramework ''reconcile'' emptyServer exampleWorker))
                 = calls emptyServer @ [CallGet (workerKey exampleWorker),
                      CallGetAndCreateOrMergePatch (worker_worker exampleWorker)]"
    by (elim exE conjE) (rule that)
  have "calls (fst (deploy exampleEnv fakeFramework ''reconcile'' emptyServer exampleWorker))
          = calls emptyServer @ [CallGet (workerKey exampleWorker),
               CallGetAndCreateOrMergePatch (worker_worker exampleWorker)]"
    using p
    by (cases "GetAndCreateOrMergePatch fakeFramework (client emptyServer)
                 (worker_worker exampleWorker)
                 (mutateWorker exampleEnv fakeFramework ''reconcile''
                    (worker_values exampleWorker) pools)") simp
  then have "calls (fst (deploy exampleEnv fakeFramework ''reconcile'' emptyServer exampleWorker))
          = [CallGet (''shoot--foo--bar'', ''bar''),
             CallGetAndCreateOrMergePatch (worker_worker exampleWorker)]"
    by (simp add: exampleWorker_key emptyServer_def)
  with h1 h2 show ?thesis by simp
qed

text \<open>
  Claim C1 as stated ("for every Values struct") fails: with a pool whose \<open>MaxSurge\<close> is
  nil, \<^verbatim>\<open>deploy\<close> panics on \<^verbatim>\<open>*workerPool.MaxSurge\<close> after the Get; no spec is built and no
  create-or-merge-patch call is issued.
\<close>

theorem deploy_nil_MaxSurge_counterexample:
  "snd (snd (deploy exampleEnv fakeFramework ''reconcile'' emptyServer
               (New incompleteValues DefaultInterval DefaultSevereThreshold DefaultTimeout)))
     = Inl NilPointerDereference
   \<and> calls (fst (deploy exampleEnv fakeFramework ''reconcile'' emptyServer
                    (New incompleteValues DefaultInterval DefaultSevereThreshold DefaultTimeout)))
       = [CallGet (''shoot--foo--bar'', ''bar'')]"
proof -
  let ?w = "New incompleteValues DefaultInterval DefaultSevereThreshold DefaultTimeout"
  have v: "worker_values ?w = incompleteValues"
    by (simp add: New_def)
  have k: "workerKey ?w = (''shoot--foo--bar'', ''bar'')"
    by (simp add: New_def workerKey_def incompleteValues_def exampleValues_def emptyWorker_def
        emptyObjectMeta_def)
  have g: "client_Get fakeFramework (client emptyServer) (workerKey ?w) emptyWorker
             = (client emptyServer, emptyWorker, Some (NotFoundError ''workers not found''))"
    by (rule emptyServer_Get)
  have f: "case Some (NotFoundError ''workers not found'') of
             None \<Rightarrow> True | Some e \<Rightarrow> IsNotFound e"
    by simp
  have b: "buildPools exampleEnv (worker_values ?w) emptyWorker
             (Values_Workers (worker_values ?w)) [] = Inl NilPointerDereference"
    unfolding v by (simp add: incompleteValues_def example_defs pool_defs)
  show ?thesis
    unfolding deploy_panics [OF g f b] k by (simp add: logCall_def emptyServer_def)
qed

section \<open>The initial Get\<close>

text \<open>
  Claim C2.  Let the initial Get of the Worker object fail with error \<open>e\<close>.  If \<open>e\<close> is
  not a not-found error, \<^verbatim>\<open>deploy\<close> returns nil and \<open>e\<close>, the Get is the only call it has
  issued and the component is unchanged.  If \<open>e\<close> is a not-found error, \<^verbatim>\<open>deploy\<close> goes
  on with the object as the Get left it: it builds the pools and, unless that panics,
  issues the create-or-merge-patch call and returns the Worker together with the error
  of that call, not \<open>e\<close>.
\<close>

theorem deploy_initial_get_error:
  assumes get: "client_Get fw (client s) (workerKey w) emptyWorker = (c1, obj, Some e)"
  shows "(\<not> IsNotFound e \<longrightarrow>
            deploy h fw operation s w
              = (\<lparr>client = c1, calls = calls s @ [CallGet (workerKey w)]\<rparr>, w, Inr (None, Some e)))
       \<and> (IsNotFound e \<longrightarrow>
            (case buildPools h (worker_values w) obj (Values_Workers (worker_values w)) [] of
               Inl p \<Rightarrow> snd (snd (deploy h fw operation s w)) = Inl p
             | Inr pools \<Rightarrow>
                 (case GetAndCreateOrMergePatch fw c1 (worker_worker w)
                         (mutateWorker h fw operation (worker_values w) pools) of
                    (c2, wobj, err2) \<Rightarrow>
                      snd (snd (deploy h fw operation s w)) = Inr (Some wobj, err2)
                      \<and> fst (deploy h fw operation s w)
                          = \<lparr>client = c2,
                             calls = calls s @ [CallGet (workerKey w),
                                        CallGetAndCreateOrMergePatch (worker_worker w)]\<rparr>)))"
proof (intro conjI impI)
  assume "\<not> IsNotFound e"
  from deploy_get_fails [OF get this]
  show "deploy h fw operation s w
          = (\<lparr>client = c1, calls = calls s @ [CallGet (workerKey w)]\<rparr>, w, Inr (None, Some e))"
    by (simp add: logCall_def)
next
  assume nf: "IsNotFound e"
  then have found: "case Some e of None \<Rightarrow> True | Some e \<Rightarrow> IsNotFound e"
    by simp
  show "case buildPools h (worker_values w) obj (Values_Workers (worker_values w)) [] of
          Inl p \<Rightarrow> snd (snd (deploy h fw operation s w)) = Inl p
        | Inr pools \<Rightarrow>
            (case GetAndCreateOrMergePatch fw c1 (worker_worker w)
                    (mutateWorker h fw operation (worker_values w) pools) of
               (c2, wobj, err2) \<Rightarrow>
                 snd (snd (deploy h fw operation s w)) = Inr (Some wobj, err2)
                 \<and> fst (deploy h fw operation s w)
                     = \<lparr>client = c2,
                        calls = calls s @ [CallGet (workerKey w),
                                   CallGetAndCreateOrMergePatch (worker_worker w)]\<rparr>)"
  proof (cases "buildPools h (worker_values w) obj (Values_Workers (worker_values w)) []")
    case (Inl p)
    from deploy_panics [OF get found Inl] Inl show ?thesis by simp
  next
    case (Inr pools)
    obtain c2 wobj err2
      where patch: "GetAndCreateOrMergePatch fw c1 (worker_worker w)
                      (mutateWorker h fw operation (worker_values w) pools) = (c2, wobj, err2)"
      by (cases "GetAndCreateOrMergePatch fw c1 (worker_worker w)
                   (mutateWorker h fw operation (worker_values w) pools)")
    from deploy_proceeds [OF get found Inr patch] Inr patch show ?thesis
      by (simp add: logCall_def)
  qed
qed

text \<open>
  The broken server answers the Get with "connection refused": \<^verbatim>\<open>deploy\<close> returns that
  error after the Get alone.  The empty server answers with not-found: \<^verbatim>\<open>deploy\<close> issues
  the create-or-merge-patch call and returns no error.
\<close>

theorem deploy_initial_get_error_witness:
  "client_Get fakeFramework (client brokenServer) (workerKey exampleWorker) emptyWorker
     = (client brokenServer, emptyWorker, Some (APIError ''connection refused''))
   \<and> \<not> IsNotFound (APIError ''connection refused'')
   \<and> deploy exampleEnv fakeFramework ''reconcile'' brokenServer exampleWorker
       = (\<lparr>client = client brokenServer, calls = [CallGet (''shoot--foo--bar'', ''bar'')]\<rparr>,
          exampleWorker, Inr (None, Some (APIError ''connection refused'')))
   \<and> client_Get fakeFramework (client emptyServer) (workerKey exampleWorker) emptyWorker
       = (client emptyServer, emptyWorker, Some (NotFoundError ''workers not found''))
   \<and> IsNotFound (NotFoundError ''workers not found'')
   \<and> (case snd (snd (deploy exampleEnv fakeFramework ''reconcile'' emptyServer exampleWorker)) of
         Inl p \<Rightarrow> False
       | Inr (obj, err) \<Rightarrow> obj \<noteq> None \<and> err = None)
   \<and> calls (fst (deploy exampleEnv fakeFramework ''reconcile'' emptyServer exampleWorker))
       = [CallGet (''shoot--foo--bar'', ''bar''),
          CallGetAndCreateOrMergePatch (worker_worker exampleWorker)]"
proof -
  have g1: "client_Get fakeFramework (client brokenServer) (workerKey exampleWorker) emptyWorker
              = (client brokenServer, emptyWorker, Some (APIError ''connection refused''))"
    by (rule brokenServer_Get)
  have g2: "client_Get fakeFramework (client emptyServer) (workerKey exampleWorker) emptyWorker
              = (client emptyServer, emptyWorker, Some (NotFoundError ''workers not found''))"
    by (rule emptyServer_Get)
  have a: "deploy exampleEnv fakeFramework ''reconcile'' brokenServer exampleWorker
             = (\<lparr>client = client brokenServer, calls = [CallGet (''shoot--foo--bar'', ''bar'')]\<rparr>,
                exampleWorker, Inr (None, Some (APIError ''connection refused'')))"
    using deploy_initial_get_error [OF g1, of exampleEnv "''reconcile''"]
    by (simp add: exampleWorker_key brokenServer_def emptyServer_def)
  have b: "buildPools exampleEnv (worker_values exampleWorker) emptyWorker
             (Values_Workers (worker_values exampleWorker)) [] = Inr [examplePool]"
    unfolding exampleWorker_values by (rule buildPools_exampleValues_fresh)
  have c: "(case snd (snd (deploy exampleEnv fakeFramework ''reconcile'' emptyServer exampleWorker)) of
              Inl p \<Rightarrow> False
            | Inr (obj, err) \<Rightarrow> obj \<noteq> None \<and> err = None)
           \<and> calls (fst (deploy exampleEnv fakeFramework ''reconcile'' emptyServer exampleWorker))
               = [CallGet (''shoot--foo--bar'', ''bar''),
                  CallGetAndCreateOrMergePatch (worker_worker exampleWorker)]"
    using deploy_initial_get_error [OF g2, of exampleEnv "''reconcile''"]
    unfolding b
    by (simp add: exampleWorker_key emptyServer_def fakeFramework_def mutateWorker_def Let_def
        split: prod.splits)
  from g1 g2 a c show ?thesis by simp
qed

section \<open>The frame of the mutation\<close>

text \<open>
  Claim C5.  \<^verbatim>\<open>Deploy\<close> runs \<^verbatim>\<open>deploy\<close> with the operation \<^verbatim>\<open>GardenerOperationReconcile\<close>.
  The mutation that \<^verbatim>\<open>deploy\<close> hands to the create-or-merge-patch call returns no error
  and changes, in the Worker object it is applied to, the annotations
  \<^verbatim>\<open>GardenerOperation\<close> and \<^verbatim>\<open>GardenerTimestamp\<close> and the spec, and nothing else: name,
  namespace, resource version, deletion timestamp, labels, every other annotation and
  the status are as before.  The timestamp annotation is the clock's reading formatted
  as RFC3339Nano; the operation annotation is \<open>reconcile\<close> (the two annotation keys
  being different constants).
\<close>

theorem Deploy_mutation_frame:
  "Deploy h fw s w =
     (case deploy h fw (GardenerOperationReconcile h) s w of
        (s', w', r) \<Rightarrow> (s', w', case r of Inl p \<Rightarrow> Inl p | Inr (obj, err) \<Rightarrow> Inr err))
   \<and> (case mutateWorker h fw (GardenerOperationReconcile h) v pools c wobj of
        (mutated, err) \<Rightarrow>
           err = None
           \<and> mutated =
               wobj\<lparr>ExtWorker_ObjectMeta := (ExtWorker_ObjectMeta wobj)
                       \<lparr>ObjectMeta_Annotations := ObjectMeta_Annotations (ExtWorker_ObjectMeta mutated)\<rparr>,
                     ExtWorker_Spec := ExtWorker_Spec mutated\<rparr>
           \<and> ObjectMeta_Name (ExtWorker_ObjectMeta mutated)
               = ObjectMeta_Name (ExtWorker_ObjectMeta wobj)
           \<and> ObjectMeta_Namespace (ExtWorker_ObjectMeta mutated)
               = ObjectMeta_Namespace (ExtWorker_ObjectMeta wobj)
           \<and> ObjectMeta_ResourceVersion (ExtWorker_ObjectMeta mutated)
               = ObjectMeta_ResourceVersion (ExtWorker_ObjectMeta wobj)
           \<and> ObjectMeta_DeletionTimestamp (ExtWorker_ObjectMeta mutated)
               = ObjectMeta_DeletionTimestamp (ExtWorker_ObjectMeta wobj)
           \<and> ObjectMeta_Labels (ExtWorker_ObjectMeta mutated)
               = ObjectMeta_Labels (ExtWorker_ObjectMeta wobj)
           \<and> ExtWorker_Status mutated = ExtWorker_Status wobj
           \<and> (\<forall>k. k \<noteq> GardenerOperation h \<and> k \<noteq> GardenerTimestamp h \<longrightarrow>
                  ObjectMeta_Annotations (ExtWorker_ObjectMeta mutated) k
                    = ObjectMeta_Annotations (ExtWorker_ObjectMeta wobj) k)
           \<and> ObjectMeta_Annotations (ExtWorker_ObjectMeta mutated) (GardenerTimestamp h)
               = Some (FormatRFC3339Nano h (TimeNow fw c))
           \<and> (GardenerOperation h \<noteq> GardenerTimestamp h \<longrightarrow>
                ObjectMeta_Annotations (ExtWorker_ObjectMeta mutated) (GardenerOperation h)
                  = Some (GardenerOperationReconcile h)))"
  by (simp add: Deploy_def mutateWorker_def Let_def SetMetaDataAnnotation_def
      split: prod.splits sum.splits)

text \<open>
  The mutation applied to the Worker found on the server: resource version 42, its
  label and its status stay; the two annotations are set.
\<close>

theorem Deploy_mutation_frame_witness:
  "GardenerOperation exampleEnv \<noteq> GardenerTimestamp exampleEnv
   \<and> ''resource-version'' \<noteq> GardenerOperation exampleEnv
   \<and> ''resource-version'' \<noteq> GardenerTimestamp exampleEnv
   \<and> (case mutateWorker exampleEnv fakeFramework (GardenerOperationReconcile exampleEnv)
              exampleValues [examplePool] (client emptyServer) existingWorker of
         (mutated, err) \<Rightarrow>
            ObjectMeta_ResourceVersion (ExtWorker_ObjectMeta mutated) = ''42''
            \<and> ExtWorker_Status mutated = ExtWorker_Status existingWorker
            \<and> ObjectMeta_Annotations (ExtWorker_ObjectMeta mutated) ''resource-version'' = None
            \<and> ObjectMeta_Annotations (ExtWorker_ObjectMeta mutated) ''gardener.cloud/operation''
                = Some ''reconcile''
            \<and> ObjectMeta_Annotations (ExtWorker_ObjectMeta mutated) ''gardener.cloud/timestamp''
                = Some ''2023-10-01T00:00:00Z'')"
proof -
  have k: "GardenerOperation exampleEnv = ''gardener.cloud/operation''"
          "GardenerTimestamp exampleEnv = ''gardener.cloud/timestamp''"
          "GardenerOperationReconcile exampleEnv = ''reconcile''"
          "FormatRFC3339Nano exampleEnv (TimeNow fakeFramework (client emptyServer))
             = ''2023-10-01T00:00:00Z''"
    by (simp_all add: exampleEnv_def)
  have m: "ObjectMeta_ResourceVersion (ExtWorker_ObjectMeta existingWorker) = ''42''"
          "ObjectMeta_Annotations (ExtWorker_ObjectMeta existingWorker) = Map.empty"
    by (simp_all add: existingWorker_def emptyWorker_def emptyObjectMeta_def)
  obtain mutated err
    where r: "mutateWorker exampleEnv fakeFramework (GardenerOperationReconcile exampleEnv)
                exampleValues [examplePool] (client emptyServer) existingWorker = (mutated, err)"
    by (cases "mutateWorker exampleEnv fakeFramework (GardenerOperationReconcile exampleEnv)
                 exampleValues [examplePool] (client emptyServer) existingWorker")
  from Deploy_mutation_frame [where h = exampleEnv and fw = fakeFramework and s = emptyServer
         and w = exampleWorker and v = exampleValues and pools = "[examplePool]"
         and c = "client emptyServer" and wobj = existingWorker]
  have "ObjectMeta_ResourceVersion (ExtWorker_ObjectMeta mutated) = ''42''
        \<and> ExtWorker_Status mutated = ExtWorker_Status existingWorker
        \<and> ObjectMeta_Annotations (ExtWorker_ObjectMeta mutated) ''resource-version'' = None
        \<and> ObjectMeta_Annotations (ExtWorker_ObjectMeta mutated) ''gardener.cloud/operation''
            = Some ''reconcile''
        \<and> ObjectMeta_Annotations (ExtWorker_ObjectMeta mutated) ''gardener.cloud/timestamp''
            = Some ''2023-10-01T00:00:00Z''"
    using r by (simp add: k m)
  then show ?thesis using r by (simp add: k)
qed

section \<open>The objects of the Alertmanager\<close>

text \<open>
  Claim C4.  For every namespace, \<^verbatim>\<open>deleteAlertmanager\<close> issues one call of
  \<^verbatim>\<open>DeleteObjects\<close> and returns its error.  The objects handed over are seven, all in
  the namespace: the StatefulSet named \<^verbatim>\<open>StatefulSetNameAlertManager\<close>, the Ingress
  \<open>alertmanager\<close>, the Services \<open>alertmanager-client\<close> and \<open>alertmanager\<close>, the Secrets
  \<open>alertmanager-basic-auth\<close> and \<open>alertmanager-config\<close> and the PersistentVolumeClaim
  \<open>alertmanager-db-alertmanager-0\<close>.  They carry nothing but name and namespace, and
  they are the same for every client, every state of the server and every call log.
\<close>

theorem deleteAlertmanager_objects:
  "calls (fst (deleteAlertmanager h fw s namespace))
     = calls s @ [CallDeleteObjects (alertmanagerObjects h namespace)]
   \<and> snd (deleteAlertmanager h fw s namespace)
       = snd (DeleteObjects fw (client s) (alertmanagerObjects h namespace))
   \<and> map objectIdentity (alertmanagerObjects h namespace)
       = [(''StatefulSet'', StatefulSetNameAlertManager h, namespace),
          (''Ingress'', ''alertmanager'', namespace),
          (''Service'', ''alertmanager-client'', namespace),
          (''Service'', ''alertmanager'', namespace),
          (''Secret'', ''alertmanager-basic-auth'', namespace),
          (''Secret'', ''alertmanager-config'', namespace),
          (''PersistentVolumeClaim'', ''alertmanager-db-alertmanager-0'', namespace)]
   \<and> length (alertmanagerObjects h namespace) = 7
   \<and> map objectMeta (alertmanagerObjects h namespace)
       = map (\<lambda>ob. namedIn (ObjectMeta_Name (objectMeta ob)) namespace)
           (alertmanagerObjects h namespace)"
  by (simp add: deleteAlertmanager_def alertmanagerObjects_def objectIdentity_def namedIn_def
      logCall_def emptyObjectMeta_def Let_def split: prod.splits)

section \<open>The waiting operations and their time bounds\<close>

text \<open>
  Claim C7.  \<^verbatim>\<open>Wait\<close> and \<^verbatim>\<open>WaitUntilWorkerStatusMachineDeploymentsUpdated\<close> call the
  framework's wait helpers with the component's \<open>waitInterval\<close>, \<open>waitSevereThreshold\<close>
  and \<open>waitTimeout\<close>; \<^verbatim>\<open>WaitMigrate\<close> and \<^verbatim>\<open>WaitCleanup\<close> call theirs with \<open>waitInterval\<close>
  and \<open>waitTimeout\<close>.  The three are those given to \<^verbatim>\<open>New\<close>.  The defaults are 5 seconds,
  30 seconds and 10 minutes, in nanoseconds.
\<close>

theorem wait_time_bounds:
  "calls (fst (Wait h fw s w))
     = calls s @ [CallWaitUntilExtensionObjectReady (worker_worker w) (WorkerResource h)
                    (worker_waitInterval w) (worker_waitSevereThreshold w) (worker_waitTimeout w)]
   \<and> calls (fst (WaitUntilWorkerStatusMachineDeploymentsUpdated h fw s w))
       = calls s @ [CallWaitUntilObjectReadyWithHealthFunction (worker_worker w) (WorkerResource h)
                      (worker_waitInterval w) (worker_waitSevereThreshold w) (worker_waitTimeout w)]
   \<and> calls (fst (WaitMigrate h fw s w))
       = calls s @ [CallWaitUntilExtensionObjectMigrated (worker_worker w) (WorkerResource h)
                      (worker_waitInterval w) (worker_waitTimeout w)]
   \<and> calls (fst (WaitCleanup h fw s w))
       = calls s @ [CallWaitUntilExtensionObjectDeleted (worker_worker w) (WorkerResource h)
                      (worker_waitInterval w) (worker_waitTimeout w)]
   \<and> snd (snd (Wait h fw s w))
       = snd (snd (WaitUntilExtensionObjectReady fw (client s) (worker_worker w) (WorkerResource h)
                     (worker_waitInterval w) (worker_waitSevereThreshold w) (worker_waitTimeout w)))
   \<and> snd (snd (WaitUntilWorkerStatusMachineDeploymentsUpdated h fw s w))
       = snd (snd (WaitUntilObjectReadyWithHealthFunction fw (client s) w
                     checkWorkerStatusMachineDeploymentsUpdated (WorkerResource h)
                     (worker_waitInterval w) (worker_waitSevereThreshold w) (worker_waitTimeout w)
                     recordMachineDeployments))
   \<and> snd (snd (WaitMigrate h fw s w))
       = snd (snd (WaitUntilExtensionObjectMigrated fw (client s) (worker_worker w)
                     (WorkerResource h) (worker_waitInterval w) (worker_waitTimeout w)))
   \<and> snd (snd (WaitCleanup h fw s w))
       = snd (snd (WaitUntilExtensionObjectDeleted fw (client s) (worker_worker w)
                     (WorkerResource h) (worker_waitInterval w) (worker_waitTimeout w)))
   \<and> worker_waitInterval (New values waitInterval waitSevereThreshold waitTimeout) = waitInterval
   \<and> worker_waitSevereThreshold (New values waitInterval waitSevereThreshold waitTimeout)
       = waitSevereThreshold
   \<and> worker_waitTimeout (New values waitInterval waitSevereThreshold waitTimeout) = waitTimeout
   \<and> DefaultInterval = 5 * 1000000000
   \<and> DefaultSevereThreshold = 30 * 1000000000
   \<and> DefaultTimeout = 10 * 60 * 1000000000"
  by (simp add: Wait_def WaitUntilWorkerStatusMachineDeploymentsUpdated_def WaitMigrate_def
      WaitCleanup_def New_def logCall_def DefaultInterval_def DefaultSevereThreshold_def
      DefaultTimeout_def Minute_def Second_def split: prod.splits)

section \<open>Restore\<close>

lemma DeepCopy_valid:
  "p < length heap \<Longrightarrow> ShootState_DeepCopy heap (Some p) = (heap @ [heap ! p], Some (length heap))"
  by (simp add: ShootState_DeepCopy_def)

lemma Restore_valid:
  assumes "p < length heap"
  shows "Restore h fw s w heap (Some p) =
           (case migrateMachineState h w (heap ! p) of
              Inl err \<Rightarrow> (s, w, heap @ [heap ! p], Inr (Some err))
            | Inr migrated \<Rightarrow>
                (case RestoreExtensionWithDeployFunction fw
                        (s\<lparr>calls := calls s @
                             [CallRestoreExtensionWithDeployFunction migrated (WorkerResource h)]\<rparr>)
                        w migrated (WorkerResource h) (deploy h fw) of
                   (s', w', shootState', r) \<Rightarrow>
                     (s', w', heap @ [shootState'], r)))"
  using assms by (simp add: Restore_def DeepCopy_valid nth_append split: sum.splits prod.splits)

text \<open>
  Claim C3, as amended.  Let \<open>shootState\<close> point to a ShootState.  \<^verbatim>\<open>Restore\<close> looks the
  machine state up with \<^verbatim>\<open>gardenerData.Get(DataTypeMachineState)\<close> and takes the entry it
  gets when its type is \<^verbatim>\<open>DataTypeMachineState\<close>.
  \<^item> If the lookup returns an entry of that type and its data decompresses to \<open>d\<close>,
    \<^verbatim>\<open>Restore\<close> calls \<^verbatim>\<open>RestoreExtensionWithDeployFunction\<close> for the kind \<^verbatim>\<open>WorkerResource\<close>,
    with its own \<^verbatim>\<open>deploy\<close> and with the copy of the ShootState in whose extension states
    the entry of kind \<^verbatim>\<open>WorkerResource\<close>, with the worker's name and state \<open>d\<close>, has been
    upserted.
  \<^item> If the decompression fails, \<^verbatim>\<open>Restore\<close> returns that error; the framework is not
    called and the component is unchanged.
  \<^item> If the lookup returns nothing or an entry of another type, the framework is called
    with an unchanged copy.
\<close>

theorem Restore_machine_state:
  assumes "p < length heap"
  shows "(\<forall>machineState d.
            GardenerResourceDataList_Get h (ShootStateSpec_Gardener (ShootState_Spec (heap ! p)))
                (DataTypeMachineState h) = Some machineState
            \<and> GardenerResourceData_Type machineState = DataTypeMachineState h
            \<and> DecompressMachineState h (RawExtension_Raw (GardenerResourceData_Data machineState))
                = Inr d
            \<longrightarrow> Restore h fw s w heap (Some p) =
                  (let migrated =
                         (heap ! p)\<lparr>ShootState_Spec := (ShootState_Spec (heap ! p))
                           \<lparr>ShootStateSpec_Extensions :=
                              ExtensionResourceStateList_Upsert h
                                (ShootStateSpec_Extensions (ShootState_Spec (heap ! p)))
                                \<lparr>ExtensionResourceState_Kind = WorkerResource h,
                                 ExtensionResourceState_Name =
                                   Some (ObjectMeta_Name (ExtWorker_ObjectMeta (worker_worker w))),
                                 ExtensionResourceState_Purpose = None,
                                 ExtensionResourceState_State =
                                   Some \<lparr>RawExtension_Raw = d, RawExtension_Object = None\<rparr>\<rparr>\<rparr>\<rparr>
                   in case RestoreExtensionWithDeployFunction fw
                             (s\<lparr>calls := calls s @
                                  [CallRestoreExtensionWithDeployFunction migrated (WorkerResource h)]\<rparr>)
                             w migrated (WorkerResource h) (deploy h fw) of
                        (s', w', shootState', r) \<Rightarrow> (s', w', heap @ [shootState'], r)))
       \<and> (\<forall>machineState err.
            GardenerResourceDataList_Get h (ShootStateSpec_Gardener (ShootState_Spec (heap ! p)))
                (DataTypeMachineState h) = Some machineState
            \<and> GardenerResourceData_Type machineState = DataTypeMachineState h
            \<and> DecompressMachineState h (RawExtension_Raw (GardenerResourceData_Data machineState))
                = Inl err
            \<longrightarrow> Restore h fw s w heap (Some p) = (s, w, heap @ [heap ! p], Inr (Some err)))
       \<and> ((case GardenerResourceDataList_Get h
                   (ShootStateSpec_Gardener (ShootState_Spec (heap ! p))) (DataTypeMachineState h) of
             None \<Rightarrow> True
           | Some machineState \<Rightarrow> GardenerResourceData_Type machineState \<noteq> DataTypeMachineState h)
            \<longrightarrow> Restore h fw s w heap (Some p) =
                  (case RestoreExtensionWithDeployFunction fw
                          (s\<lparr>calls := calls s @
                               [CallRestoreExtensionWithDeployFunction (heap ! p) (WorkerResource h)]\<rparr>)
                          w (heap ! p) (WorkerResource h) (deploy h fw) of
                     (s', w', shootState', r) \<Rightarrow> (s', w', heap @ [shootState'], r)))"
  unfolding Restore_valid [OF assms]
  by (auto simp: migrateMachineState_def machineStateEntry_def Let_def split: option.splits)

lemmas shootState_defs = exampleShootState_def corruptShootState_def plainShootState_def
  migratedShootState_def

text \<open>
  The machine state \<open>etats\<close> of \<open>exampleShootState\<close> decompresses (with the stand-in of
  \<open>exampleEnv\<close>) to \<open>state\<close>: the store after \<^verbatim>\<open>Restore\<close> holds the caller's ShootState and
  the copy with the Worker's state.  The machine state of \<open>corruptShootState\<close> does not
  decompress: \<^verbatim>\<open>Restore\<close> returns the error and has called nothing.  Without machine
  state the copy equals the original.
\<close>

theorem Restore_machine_state_witness:
  "(0::nat) < length [exampleShootState]
   \<and> fst (snd (snd (Restore exampleEnv fakeFramework emptyServer exampleWorker
                       [exampleShootState] (Some 0))))
       = [exampleShootState, migratedShootState]
   \<and> Restore exampleEnv fakeFramework emptyServer exampleWorker [corruptShootState] (Some 0)
       = (emptyServer, exampleWorker, [corruptShootState, corruptShootState],
          Inr (Some (ErrorString ''unexpected EOF'')))
   \<and> fst (snd (snd (Restore exampleEnv fakeFramework emptyServer exampleWorker
                       [plainShootState] (Some 0))))
       = [plainShootState, plainShootState]"
proof -
  have l1: "(0::nat) < length [exampleShootState]" and l2: "(0::nat) < length [corruptShootState]"
    and l3: "(0::nat) < length [plainShootState]"
    by simp_all
  have n: "ObjectMeta_Name (ExtWorker_ObjectMeta (worker_worker exampleWorker)) = ''bar''"
    by (simp add: exampleWorker_def New_def exampleValues_def emptyWorker_def emptyObjectMeta_def)
  have a: "fst (snd (snd (Restore exampleEnv fakeFramework emptyServer exampleWorker
                            [exampleShootState] (Some 0))))
             = [exampleShootState, migratedShootState]"
    using Restore_machine_state [OF l1, of exampleEnv fakeFramework emptyServer exampleWorker]
    by (simp add: n exampleEnv_def shootState_defs fakeFramework_def Let_def split: prod.splits)
  have b: "Restore exampleEnv fakeFramework emptyServer exampleWorker [corruptShootState] (Some 0)
             = (emptyServer, exampleWorker, [corruptShootState, corruptShootState],
                Inr (Some (ErrorString ''unexpected EOF'')))"
    using Restore_machine_state [OF l2, of exampleEnv fakeFramework emptyServer exampleWorker]
    by (simp add: exampleEnv_def shootState_defs)
  have c: "fst (snd (snd (Restore exampleEnv fakeFramework emptyServer exampleWorker
                            [plainShootState] (Some 0))))
             = [plainShootState, plainShootState]"
    using Restore_machine_state [OF l3, of exampleEnv fakeFramework emptyServer exampleWorker]
    by (simp add: exampleEnv_def shootState_defs fakeFramework_def split: prod.splits)
  from l1 a b c show ?thesis by simp
qed

text \<open>
  Claim C3 as stated fails when the lookup goes by the name of the entry: the Gardener
  data of \<open>otherNameShootState\<close> contain an entry of type \<open>machine-state\<close>, named \<open>other\<close>,
  and \<^verbatim>\<open>Restore\<close> hands the framework a copy without any extension state.
\<close>

theorem Restore_other_name_counterexample:
  "map GardenerResourceData_Type (ShootStateSpec_Gardener (ShootState_Spec otherNameShootState))
     = [DataTypeMachineState exampleEnv]
   \<and> ShootStateSpec_Extensions (ShootState_Spec otherNameShootState) = []
   \<and> hd (calls (fst (Restore exampleEnv fakeFramework emptyServer exampleWorker
                         [otherNameShootState] (Some 0))))
       = CallRestoreExtensionWithDeployFunction otherNameShootState ''Worker''
   \<and> fst (snd (snd (Restore exampleEnv fakeFramework emptyServer exampleWorker
                         [otherNameShootState] (Some 0))))
       = [otherNameShootState, otherNameShootState]"
proof -
  let ?s1 = "emptyServer\<lparr>calls := calls emptyServer @
               [CallRestoreExtensionWithDeployFunction otherNameShootState
                  (WorkerResource exampleEnv)]\<rparr>"
  have t: "map GardenerResourceData_Type
             (ShootStateSpec_Gardener (ShootState_Spec otherNameShootState))
             = [DataTypeMachineState exampleEnv]"
    and e: "ShootStateSpec_Extensions (ShootState_Spec otherNameShootState) = []"
    by (simp_all add: otherNameShootState_def exampleShootState_def exampleEnv_def)
  have m: "migrateMachineState exampleEnv exampleWorker otherNameShootState
             = Inr otherNameShootState"
    by (simp add: migrateMachineState_def otherNameShootState_def exampleShootState_def
        exampleEnv_def)
  have r: "fst (Restore exampleEnv fakeFramework emptyServer exampleWorker
                  [otherNameShootState] (Some 0))
             = fst (deploy exampleEnv fakeFramework ''wait-for-state'' ?s1 exampleWorker)"
    by (simp add: Restore_valid m fakeFramework_def split: prod.splits)
  obtain rest where
    c: "calls (fst (deploy exampleEnv fakeFramework ''wait-for-state'' ?s1 exampleWorker))
          = calls ?s1 @ CallGet (workerKey exampleWorker) # rest"
    using deploy_calls [of exampleEnv fakeFramework "''wait-for-state''" ?s1 exampleWorker]
    by blast
  have k: "WorkerResource exampleEnv = ''Worker''"
    by (simp add: exampleEnv_def)
  have h: "hd (calls (fst (Restore exampleEnv fakeFramework emptyServer exampleWorker
                             [otherNameShootState] (Some 0))))
             = CallRestoreExtensionWithDeployFunction otherNameShootState ''Worker''"
    unfolding r c by (simp add: emptyServer_def k)
  have st: "fst (snd (snd (Restore exampleEnv fakeFramework emptyServer exampleWorker
                             [otherNameShootState] (Some 0))))
              = [otherNameShootState, otherNameShootState]"
    by (simp add: Restore_valid m fakeFramework_def split: prod.splits)
  from t e h st show ?thesis by simp
qed

text \<open>
  Claim C10.  \<^verbatim>\<open>Restore\<close> does not change the ShootState it is given: whatever the
  pointer, every cell that the store held before the call holds the same ShootState,
  Gardener data and extension states included, after it.  The upsert and the framework
  work on the copy, a cell of its own.
\<close>

theorem Restore_leaves_argument:
  "take (length heap) (fst (snd (snd (Restore h fw s w heap shootState)))) = heap
   \<and> (\<forall>p. shootState = Some p \<and> p < length heap \<longrightarrow>
          fst (snd (snd (Restore h fw s w heap shootState))) ! p = heap ! p)"
proof -
  have t: "take (length heap) (fst (snd (snd (Restore h fw s w heap shootState)))) = heap"
    by (simp add: Restore_def ShootState_DeepCopy_def
        split: option.splits prod.splits sum.splits)
  have "\<And>p. p < length heap \<Longrightarrow>
          take (length heap) (fst (snd (snd (Restore h fw s w heap shootState)))) ! p
            = fst (snd (snd (Restore h fw s w heap shootState))) ! p"
    by simp
  with t show ?thesis by simp
qed

text \<open>
  After restoring from \<open>exampleShootState\<close> the caller's cell still holds it, although the
  copy has received the Worker's state.
\<close>

theorem Restore_leaves_argument_witness:
  "(0::nat) < length [exampleShootState]
   \<and> fst (snd (snd (Restore exampleEnv fakeFramework emptyServer exampleWorker
                       [exampleShootState] (Some 0)))) ! 0
       = exampleShootState
   \<and> exampleShootState \<noteq> migratedShootState"
proof -
  have "fst (snd (snd (Restore exampleEnv fakeFramework emptyServer exampleWorker
                         [exampleShootState] (Some 0)))) ! 0
          = [exampleShootState] ! 0"
    using Restore_leaves_argument [of "[exampleShootState]" exampleEnv fakeFramework emptyServer
            exampleWorker "Some 0"]
    by simp
  moreover have "ShootStateSpec_Extensions (ShootState_Spec exampleShootState)
                   \<noteq> ShootStateSpec_Extensions (ShootState_Spec migratedShootState)"
    by (simp add: shootState_defs)
  ultimately show ?thesis by auto
qed

section \<open>The lifecycle of the component\<close>

lemma workerKey_conv: "workerKey w = ObjectKeyFromObject (worker_worker w)"
  by (simp add: workerKey_def ObjectKeyFromObject_def)

lemma mutateWorker_keeps_key:
  "ObjectKeyFromObject (fst (mutateWorker h fw operation vals pools c obj)) = ObjectKeyFromObject obj"
  by (simp add: mutateWorker_def Let_def SetMetaDataAnnotation_def ObjectKeyFromObject_def)

lemma recordMachineDeployments_keeps_key:
  "workerKey (fst (recordMachineDeployments w)) = workerKey w"
  by (simp add: recordMachineDeployments_def workerKey_def)

lemma keepsObjectKey_patch:
  assumes "keepsObjectKey fw"
      and "\<And>c' obj'. ObjectKeyFromObject (fst (f c' obj')) = ObjectKeyFromObject obj'"
  shows "ObjectKeyFromObject (fst (snd (GetAndCreateOrMergePatch fw c obj f)))
           = ObjectKeyFromObject obj"
proof -
  from assms(1)
  have "(\<forall>c' obj'. ObjectKeyFromObject (fst (f c' obj')) = ObjectKeyFromObject obj')
        \<longrightarrow> ObjectKeyFromObject (fst (snd (GetAndCreateOrMergePatch fw c obj f)))
              = ObjectKeyFromObject obj"
    unfolding keepsObjectKey_def by (elim conjE) (erule allE, erule allE, erule allE, assumption)
  with assms(2) show ?thesis by simp
qed

lemma keepsObjectKey_ready:
  assumes "keepsObjectKey fw"
      and "\<And>w'. workerKey (fst (postReady w')) = workerKey w'"
  shows "workerKey (fst (snd (WaitUntilObjectReadyWithHealthFunction fw c w health kind
                                i st t postReady))) = workerKey w"
proof -
  from assms(1)
  have "\<forall>c w health kind i st t postReady.
           (\<forall>w'. workerKey (fst (postReady w')) = workerKey w')
           \<longrightarrow> workerKey (fst (snd (WaitUntilObjectReadyWithHealthFunction fw c w health kind
                                         i st t postReady)))
                 = workerKey w"
    unfolding keepsObjectKey_def by (elim conjE)
  with assms(2) show ?thesis by simp
qed

lemma keepsObjectKey_restore:
  assumes "keepsObjectKey fw"
      and "\<And>operation s' w'. workerKey (fst (snd (deployFunc operation s' w'))) = workerKey w'"
  shows "workerKey (fst (snd (RestoreExtensionWithDeployFunction fw s w shootState kind
                                deployFunc))) = workerKey w"
proof -
  from assms(1)
  have "\<forall>s w shootState kind deployFunc.
           (\<forall>operation s' w'. workerKey (fst (snd (deployFunc operation s' w'))) = workerKey w')
           \<longrightarrow> workerKey (fst (snd (RestoreExtensionWithDeployFunction fw s w shootState kind
                                         deployFunc)))
                 = workerKey w"
    unfolding keepsObjectKey_def by (elim conjE)
  with assms(2) show ?thesis by simp
qed

lemma keepsObjectKey_simple:
  assumes "keepsObjectKey fw"
  shows "ObjectKeyFromObject (fst (snd (MigrateExtensionObject fw c obj))) = ObjectKeyFromObject obj"
    and "ObjectKeyFromObject (fst (snd (DeleteExtensionObject fw c obj))) = ObjectKeyFromObject obj"
    and "ObjectKeyFromObject (fst (snd (WaitUntilExtensionObjectReady fw c obj kind i st t)))
           = ObjectKeyFromObject obj"
    and "ObjectKeyFromObject (fst (snd (WaitUntilExtensionObjectMigrated fw c obj kind i t)))
           = ObjectKeyFromObject obj"
    and "ObjectKeyFromObject (fst (snd (WaitUntilExtensionObjectDeleted fw c obj kind i t)))
           = ObjectKeyFromObject obj"
  using assms unfolding keepsObjectKey_def by simp_all

lemma deploy_keeps_key:
  assumes "keepsObjectKey fw"
  shows "workerKey (fst (snd (deploy h fw operation s w))) = workerKey w"
proof -
  have patch: "\<And>c pools. ObjectKeyFromObject
                   (fst (snd (GetAndCreateOrMergePatch fw c (worker_worker w)
                                (mutateWorker h fw operation (worker_values w) pools))))
                 = ObjectKeyFromObject (worker_worker w)"
    by (rule keepsObjectKey_patch [OF assms]) (rule mutateWorker_keeps_key)
  obtain c1 obj err where get: "client_Get fw (client s) (workerKey w) emptyWorker = (c1, obj, err)"
    by (cases "client_Get fw (client s) (workerKey w) emptyWorker")
  show ?thesis
  proof (cases "case err of None \<Rightarrow> False | Some e \<Rightarrow> \<not> IsNotFound e")
    case True
    then show ?thesis using get by (simp add: deploy_def)
  next
    case False
    show ?thesis
    proof (cases "buildPools h (worker_values w) obj (Values_Workers (worker_values w)) []")
      case (Inl p)
      then show ?thesis using get False by (simp add: deploy_def)
    next
      case (Inr pools)
      obtain c2 wobj err2
        where p: "GetAndCreateOrMergePatch fw c1 (worker_worker w)
                    (mutateWorker h fw operation (worker_values w) pools) = (c2, wobj, err2)"
        by (cases "GetAndCreateOrMergePatch fw c1 (worker_worker w)
                     (mutateWorker h fw operation (worker_values w) pools)")
      from patch [of c1 pools] p
      have "ObjectKeyFromObject wobj = ObjectKeyFromObject (worker_worker w)"
        by simp
      then show ?thesis
        using get False Inr p by (simp add: deploy_def workerKey_conv)
    qed
  qed
qed

lemma Deploy_component: "fst (snd (Deploy h fw s w)) = fst (snd (deploy h fw (GardenerOperationReconcile h) s w))"
  by (simp add: Deploy_def split: prod.splits)

lemma Restore_keeps_key:
  assumes "keepsObjectKey fw"
  shows "workerKey (fst (snd (Restore h fw s w heap shootState))) = workerKey w"
proof -
  have r: "\<And>s0 shootState0 kind.
             workerKey (fst (snd (RestoreExtensionWithDeployFunction fw s0 w shootState0 kind
                                   (deploy h fw))))
               = workerKey w"
    by (rule keepsObjectKey_restore [OF assms]) (rule deploy_keeps_key [OF assms])
  show ?thesis
  proof (cases "ShootState_DeepCopy heap shootState")
    case (Pair heap1 q)
    show ?thesis
    proof (cases q)
      case None
      with Pair show ?thesis by (simp add: Restore_def)
    next
      case (Some shootStateCopy)
      show ?thesis
      proof (cases "migrateMachineState h w (heap1 ! shootStateCopy)")
        case (Inl err)
        with Pair Some show ?thesis by (simp add: Restore_def)
      next
        case (Inr migrated)
        let ?s1 = "s\<lparr>calls := calls s @
                       [CallRestoreExtensionWithDeployFunction migrated (WorkerResource h)]\<rparr>"
        from r [of ?s1 migrated "WorkerResource h"] Pair Some Inr show ?thesis
          by (cases "RestoreExtensionWithDeployFunction fw ?s1 w migrated (WorkerResource h)
                       (deploy h fw)") (simp add: Restore_def)
      qed
    qed
  qed
qed

lemma simple_components:
  "fst (snd (Migrate fw s w))
     = w\<lparr>worker_worker := fst (snd (MigrateExtensionObject fw (client s) (worker_worker w)))\<rparr>"
  "fst (snd (Destroy fw s w))
     = w\<lparr>worker_worker := fst (snd (DeleteExtensionObject fw (client s) (worker_worker w)))\<rparr>"
  "fst (snd (Wait h fw s w))
     = w\<lparr>worker_worker :=
          fst (snd (WaitUntilExtensionObjectReady fw (client s) (worker_worker w) (WorkerResource h)
                      (worker_waitInterval w) (worker_waitSevereThreshold w)
                      (worker_waitTimeout w)))\<rparr>"
  "fst (snd (WaitMigrate h fw s w))
     = w\<lparr>worker_worker :=
          fst (snd (WaitUntilExtensionObjectMigrated fw (client s) (worker_worker w)
                      (WorkerResource h) (worker_waitInterval w) (worker_waitTimeout w)))\<rparr>"
  "fst (snd (WaitCleanup h fw s w))
     = w\<lparr>worker_worker :=
          fst (snd (WaitUntilExtensionObjectDeleted fw (client s) (worker_worker w)
                      (WorkerResource h) (worker_waitInterval w) (worker_waitTimeout w)))\<rparr>"
  "fst (snd (WaitUntilWorkerStatusMachineDeploymentsUpdated h fw s w))
     = fst (snd (WaitUntilObjectReadyWithHealthFunction fw (client s) w
                   checkWorkerStatusMachineDeploymentsUpdated (WorkerResource h)
                   (worker_waitInterval w) (worker_waitSevereThreshold w) (worker_waitTimeout w)
                   recordMachineDeployments))"
  by (simp_all add: Migrate_def Destroy_def Wait_def WaitMigrate_def WaitCleanup_def
      WaitUntilWorkerStatusMachineDeploymentsUpdated_def split: prod.splits)

lemma reachable_key:
  assumes keeps: "keepsObjectKey fw"
      and reach: "reachable h fw v waitInterval waitSevereThreshold waitTimeout w"
  shows "workerKey w = (Values_Namespace v, Values_Name v)"
  using reach
proof (induction rule: reachable.induct)
  case reachable_New
  show ?case by (simp add: New_def workerKey_def)
next
  case (reachable_Deploy w s)
  then show ?case by (simp add: Deploy_component deploy_keeps_key [OF keeps])
next
  case (reachable_Restore w s heap shootState)
  then show ?case by (simp add: Restore_keeps_key [OF keeps])
next
  case (reachable_Migrate w s)
  moreover have "ObjectKeyFromObject (fst (snd (MigrateExtensionObject fw (client s) (worker_worker w))))
                   = ObjectKeyFromObject (worker_worker w)"
    by (rule keepsObjectKey_simple [OF keeps])
  ultimately show ?case
    by (simp add: simple_components workerKey_conv)
next
  case (reachable_Destroy w s)
  moreover have "ObjectKeyFromObject (fst (snd (DeleteExtensionObject fw (client s) (worker_worker w))))
                   = ObjectKeyFromObject (worker_worker w)"
    by (rule keepsObjectKey_simple [OF keeps])
  ultimately show ?case
    by (simp add: simple_components workerKey_conv)
next
  case (reachable_Wait w s)
  moreover have "ObjectKeyFromObject
                   (fst (snd (WaitUntilExtensionObjectReady fw (client s) (worker_worker w)
                      (WorkerResource h) (worker_waitInterval w) (worker_waitSevereThreshold w)
                      (worker_waitTimeout w))))
                   = ObjectKeyFromObject (worker_worker w)"
    by (rule keepsObjectKey_simple [OF keeps])
  ultimately show ?case
    by (simp add: simple_components workerKey_conv)
next
  case (reachable_WaitUntilWorkerStatusMachineDeploymentsUpdated w s)
  moreover have "workerKey
                   (fst (snd (WaitUntilObjectReadyWithHealthFunction fw (client s) w
                      checkWorkerStatusMachineDeploymentsUpdated (WorkerResource h)
                      (worker_waitInterval w) (worker_waitSevereThreshold w) (worker_waitTimeout w)
                      recordMachineDeployments)))
                   = workerKey w"
    by (rule keepsObjectKey_ready [OF keeps]) (rule recordMachineDeployments_keeps_key)
  ultimately show ?case
    by (simp add: simple_components)
next
  case (reachable_WaitMigrate w s)
  moreover have "ObjectKeyFromObject
                   (fst (snd (WaitUntilExtensionObjectMigrated fw (client s) (worker_worker w)
                      (WorkerResource h) (worker_waitInterval w) (worker_waitTimeout w))))
                   = ObjectKeyFromObject (worker_worker w)"
    by (rule keepsObjectKey_simple [OF keeps])
  ultimately show ?case
    by (simp add: simple_components workerKey_conv)
next
  case (reachable_WaitCleanup w s)
  moreover have "ObjectKeyFromObject
                   (fst (snd (WaitUntilExtensionObjectDeleted fw (client s) (worker_worker w)
                      (WorkerResource h) (worker_waitInterval w) (worker_waitTimeout w))))
                   = ObjectKeyFromObject (worker_worker w)"
    by (rule keepsObjectKey_simple [OF keeps])
  ultimately show ?case
    by (simp add: simple_components workerKey_conv)
next
  case (reachable_SetSSHPublicKey w key)
  then show ?case by (simp add: SetSSHPublicKey_def workerKey_def)
next
  case (reachable_SetInfrastructureProviderStatus w status)
  then show ?case by (simp add: SetInfrastructureProviderStatus_def workerKey_def)
next
  case (reachable_SetWorkerNameToOperatingSystemConfigsMap w maps)
  then show ?case by (simp add: SetWorkerNameToOperatingSystemConfigsMap_def workerKey_def)
qed

lemma keepsObjectKey_fakeFramework: "keepsObjectKey fakeFramework"
proof -
  have patch: "ObjectKeyFromObject (fst (snd (GetAndCreateOrMergePatch fakeFramework c obj f)))
                 = ObjectKeyFromObject obj"
    if f: "\<forall>c' obj'. ObjectKeyFromObject (fst (f c' obj')) = ObjectKeyFromObject obj'"
    for c obj f
  proof -
    let ?base = "case apiServer_worker c of
                   None \<Rightarrow> obj
                 | Some stored \<Rightarrow>
                     if ObjectKeyFromObject stored = ObjectKeyFromObject obj then stored else obj"
    have b: "ObjectKeyFromObject ?base = ObjectKeyFromObject obj"
      by (simp split: option.splits)
    have "fst (snd (GetAndCreateOrMergePatch fakeFramework c obj f)) = fst (f c ?base)"
      by (simp add: fakeFramework_def split: prod.splits)
    with f b show ?thesis by simp
  qed
  have ready: "workerKey (fst (snd (WaitUntilObjectReadyWithHealthFunction fakeFramework c w health
                                      kind i st t postReady))) = workerKey w"
    if p: "\<forall>w'. workerKey (fst (postReady w')) = workerKey w'"
    for c w health kind i st t postReady
  proof (cases "health w (WorkerObject (worker_worker w))")
    case None
    have "fst (snd (WaitUntilObjectReadyWithHealthFunction fakeFramework c w health
                      kind i st t postReady)) = fst (postReady w)"
      using None by (simp add: fakeFramework_def split: prod.splits)
    with p show ?thesis by simp
  next
    case (Some e)
    then show ?thesis by (simp add: fakeFramework_def)
  qed
  have restore: "workerKey (fst (snd (RestoreExtensionWithDeployFunction fakeFramework s w shootState
                                        kind deployFunc))) = workerKey w"
    if d: "\<forall>operation s' w'. workerKey (fst (snd (deployFunc operation s' w'))) = workerKey w'"
    for s w shootState kind deployFunc
  proof -
    have "fst (snd (RestoreExtensionWithDeployFunction fakeFramework s w shootState kind deployFunc))
            = fst (snd (deployFunc ''wait-for-state'' s w))"
      by (simp add: fakeFramework_def split: prod.splits)
    with d show ?thesis by simp
  qed
  show ?thesis
    unfolding keepsObjectKey_def
    using patch ready restore by (simp add: fakeFramework_def)
qed

text \<open>
  Claim C6.  \<^verbatim>\<open>New\<close> returns a component whose Worker object carries the name and
  namespace of the Values and nothing else.  Let \<open>w\<close> be that component or what any
  sequence of its operations has made of it, with a framework that returns the object
  under the key it was given.  The Worker object of \<open>w\<close> still has the name and the
  namespace of the Values, and each lifecycle operation acts on it:
  \<^item> \<^verbatim>\<open>Migrate\<close>, \<^verbatim>\<open>Destroy\<close>, \<^verbatim>\<open>Wait\<close>, \<^verbatim>\<open>WaitMigrate\<close> and \<^verbatim>\<open>WaitCleanup\<close> are one call of
    \<^verbatim>\<open>MigrateExtensionObject\<close>, \<^verbatim>\<open>DeleteExtensionObject\<close>, \<^verbatim>\<open>WaitUntilExtensionObjectReady\<close>,
    \<^verbatim>\<open>WaitUntilExtensionObjectMigrated\<close> and \<^verbatim>\<open>WaitUntilExtensionObjectDeleted\<close> on that
    object: the server is left as the call leaves it, the object is what the call
    returns and the error is the call's;
  \<^item> \<^verbatim>\<open>Deploy\<close> gets the object under that namespace and name, returns at once on an
    error other than not-found, and otherwise builds the pools and is the
    create-or-merge-patch call on that object with the reconcile mutation;
  \<^item> \<^verbatim>\<open>Restore\<close>, given a ShootState, returns the error of the decompression or is the
    call of \<^verbatim>\<open>RestoreExtensionWithDeployFunction\<close> for the kind \<^verbatim>\<open>WorkerResource\<close> with the
    component's own \<^verbatim>\<open>deploy\<close>.
\<close>

theorem New_lifecycle:
  assumes keeps: "keepsObjectKey fw"
      and reach: "reachable h fw v waitInterval waitSevereThreshold waitTimeout w"
  shows "worker_worker (New v waitInterval waitSevereThreshold waitTimeout)
           = emptyWorker\<lparr>ExtWorker_ObjectMeta := emptyObjectMeta
               \<lparr>ObjectMeta_Name := Values_Name v, ObjectMeta_Namespace := Values_Namespace v\<rparr>\<rparr>
       \<and> ObjectMeta_Name (ExtWorker_ObjectMeta (worker_worker w)) = Values_Name v
       \<and> ObjectMeta_Namespace (ExtWorker_ObjectMeta (worker_worker w)) = Values_Namespace v
       \<and> Migrate fw s w =
           (case MigrateExtensionObject fw (client s) (worker_worker w) of
              (c, obj, err) \<Rightarrow>
                (\<lparr>client = c, calls = calls s @ [CallMigrateExtensionObject (worker_worker w)]\<rparr>,
                 w\<lparr>worker_worker := obj\<rparr>, err))
       \<and> Destroy fw s w =
           (case DeleteExtensionObject fw (client s) (worker_worker w) of
              (c, obj, err) \<Rightarrow>
                (\<lparr>client = c, calls = calls s @ [CallDeleteExtensionObject (worker_worker w)]\<rparr>,
                 w\<lparr>worker_worker := obj\<rparr>, err))
       \<and> Wait h fw s w =
           (case WaitUntilExtensionObjectReady fw (client s) (worker_worker w) (WorkerResource h)
                   (worker_waitInterval w) (worker_waitSevereThreshold w) (worker_waitTimeout w) of
              (c, obj, err) \<Rightarrow>
                (\<lparr>client = c,
                  calls = calls s @
                    [CallWaitUntilExtensionObjectReady (worker_worker w) (WorkerResource h)
                       (worker_waitInterval w) (worker_waitSevereThreshold w)
                       (worker_waitTimeout w)]\<rparr>,
                 w\<lparr>worker_worker := obj\<rparr>, err))
       \<and> WaitMigrate h fw s w =
           (case WaitUntilExtensionObjectMigrated fw (client s) (worker_worker w) (WorkerResource h)
                   (worker_waitInterval w) (worker_waitTimeout w) of
              (c, obj, err) \<Rightarrow>
                (\<lparr>client = c,
                  calls = calls s @
                    [CallWaitUntilExtensionObjectMigrated (worker_worker w) (WorkerResource h)
                       (worker_waitInterval w) (worker_waitTimeout w)]\<rparr>,
                 w\<lparr>worker_worker := obj\<rparr>, err))
       \<and> WaitCleanup h fw s w =
           (case WaitUntilExtensionObjectDeleted fw (client s) (worker_worker w) (WorkerResource h)
                   (worker_waitInterval w) (worker_waitTimeout w) of
              (c, obj, err) \<Rightarrow>
                (\<lparr>client = c,
                  calls = calls s @
                    [CallWaitUntilExtensionObjectDeleted (worker_worker w) (WorkerResource h)
                       (worker_waitInterval w) (worker_waitTimeout w)]\<rparr>,
                 w\<lparr>worker_worker := obj\<rparr>, err))
       \<and> Deploy h fw s w =
           (case client_Get fw (client s) (Values_Namespace v, Values_Name v) emptyWorker of
              (c1, obj, err) \<Rightarrow>
                if (case err of None \<Rightarrow> False | Some e \<Rightarrow> \<not> IsNotFound e)
                then (\<lparr>client = c1,
                       calls = calls s @ [CallGet (Values_Namespace v, Values_Name v)]\<rparr>,
                      w, Inr err)
                else
                  (case buildPools h (worker_values w) obj (Values_Workers (worker_values w)) [] of
                     Inl p \<Rightarrow>
                       (\<lparr>client = c1,
                         calls = calls s @ [CallGet (Values_Namespace v, Values_Name v)]\<rparr>,
                        w, Inl p)
                   | Inr pools \<Rightarrow>
                       (case GetAndCreateOrMergePatch fw c1 (worker_worker w)
                               (mutateWorker h fw (GardenerOperationReconcile h)
                                  (worker_values w) pools) of
                          (c2, wobj, err2) \<Rightarrow>
                            (\<lparr>client = c2,
                              calls = calls s @
                                [CallGet (Values_Namespace v, Values_Name v),
                                 CallGetAndCreateOrMergePatch (worker_worker w)]\<rparr>,
                             w\<lparr>worker_worker := wobj,
                               worker_machineDeploymentsLastUpdateTime :=
                                 WorkerStatus_MachineDeploymentsLastUpdateTime
                                   (ExtWorker_Status obj)\<rparr>,
                             Inr err2))))
       \<and> (\<forall>p < length heap.
            Restore h fw s w heap (Some p) =
              (case migrateMachineState h w (heap ! p) of
                 Inl err \<Rightarrow> (s, w, heap @ [heap ! p], Inr (Some err))
               | Inr migrated \<Rightarrow>
                   (case RestoreExtensionWithDeployFunction fw
                           (s\<lparr>calls := calls s @
                                [CallRestoreExtensionWithDeployFunction migrated
                                   (WorkerResource h)]\<rparr>)
                           w migrated (WorkerResource h) (deploy h fw) of
                      (s', w', shootState', r) \<Rightarrow> (s', w', heap @ [shootState'], r))))"
proof -
  have key: "workerKey w = (Values_Namespace v, Values_Name v)"
    using reachable_key [OF keeps reach] .
  have fresh: "worker_worker (New v waitInterval waitSevereThreshold waitTimeout)
           = emptyWorker\<lparr>ExtWorker_ObjectMeta := emptyObjectMeta
               \<lparr>ObjectMeta_Name := Values_Name v, ObjectMeta_Namespace := Values_Namespace v\<rparr>\<rparr>"
    by (simp add: New_def)
  have names: "ObjectMeta_Name (ExtWorker_ObjectMeta (worker_worker w)) = Values_Name v"
    "ObjectMeta_Namespace (ExtWorker_ObjectMeta (worker_worker w)) = Values_Namespace v"
    using key by (simp_all add: workerKey_def)
  have migrate: "Migrate fw s w =
           (case MigrateExtensionObject fw (client s) (worker_worker w) of
              (c, obj, err) \<Rightarrow>
                (\<lparr>client = c, calls = calls s @ [CallMigrateExtensionObject (worker_worker w)]\<rparr>,
                 w\<lparr>worker_worker := obj\<rparr>, err))"
    by (simp add: Migrate_def logCall_def)
  have destroy: "Destroy fw s w =
           (case DeleteExtensionObject fw (client s) (worker_worker w) of
              (c, obj, err) \<Rightarrow>
                (\<lparr>client = c, calls = calls s @ [CallDeleteExtensionObject (worker_worker w)]\<rparr>,
                 w\<lparr>worker_worker := obj\<rparr>, err))"
    by (simp add: Destroy_def logCall_def)
  have wait: "Wait h fw s w =
           (case WaitUntilExtensionObjectReady fw (client s) (worker_worker w) (WorkerResource h)
                   (worker_waitInterval w) (worker_waitSevereThreshold w) (worker_waitTimeout w) of
              (c, obj, err) \<Rightarrow>
                (\<lparr>client = c,
                  calls = calls s @
                    [CallWaitUntilExtensionObjectReady (worker_worker w) (WorkerResource h)
                       (worker_waitInterval w) (worker_waitSevereThreshold w)
                       (worker_waitTimeout w)]\<rparr>,
                 w\<lparr>worker_worker := obj\<rparr>, err))"
    by (simp add: Wait_def logCall_def)
  have waitMigrate: "WaitMigrate h fw s w =
           (case WaitUntilExtensionObjectMigrated fw (client s) (worker_worker w) (WorkerResource h)
                   (worker_waitInterval w) (worker_waitTimeout w) of
              (c, obj, err) \<Rightarrow>
                (\<lparr>client = c,
                  calls = calls s @
                    [CallWaitUntilExtensionObjectMigrated (worker_worker w) (WorkerResource h)
                       (worker_waitInterval w) (worker_waitTimeout w)]\<rparr>,
                 w\<lparr>worker_worker := obj\<rparr>, err))"
    by (simp add: WaitMigrate_def logCall_def)
  have waitCleanup: "WaitCleanup h fw s w =
           (case WaitUntilExtensionObjectDeleted fw (client s) (worker_worker w) (WorkerResource h)
                   (worker_waitInterval w) (worker_waitTimeout w) of
              (c, obj, err) \<Rightarrow>
                (\<lparr>client = c,
                  calls = calls s @
                    [CallWaitUntilExtensionObjectDeleted (worker_worker w) (WorkerResource h)
                       (worker_waitInterval w) (worker_waitTimeout w)]\<rparr>,
                 w\<lparr>worker_worker := obj\<rparr>, err))"
    by (simp add: WaitCleanup_def logCall_def)
  have dep: "Deploy h fw s w =
           (case client_Get fw (client s) (Values_Namespace v, Values_Name v) emptyWorker of
              (c1, obj, err) \<Rightarrow>
                if (case err of None \<Rightarrow> False | Some e \<Rightarrow> \<not> IsNotFound e)
                then (\<lparr>client = c1,
                       calls = calls s @ [CallGet (Values_Namespace v, Values_Name v)]\<rparr>,
                      w, Inr err)
                else
                  (case buildPools h (worker_values w) obj (Values_Workers (worker_values w)) [] of
                     Inl p \<Rightarrow>
                       (\<lparr>client = c1,
                         calls = calls s @ [CallGet (Values_Namespace v, Values_Name v)]\<rparr>,
                        w, Inl p)
                   | Inr pools \<Rightarrow>
                       (case GetAndCreateOrMergePatch fw c1 (worker_worker w)
                               (mutateWorker h fw (GardenerOperationReconcile h)
                                  (worker_values w) pools) of
                          (c2, wobj, err2) \<Rightarrow>
                            (\<lparr>client = c2,
                              calls = calls s @
                                [CallGet (Values_Namespace v, Values_Name v),
                                 CallGetAndCreateOrMergePatch (worker_worker w)]\<rparr>,
                             w\<lparr>worker_worker := wobj,
                               worker_machineDeploymentsLastUpdateTime :=
                                 WorkerStatus_MachineDeploymentsLastUpdateTime
                                   (ExtWorker_Status obj)\<rparr>,
                             Inr err2))))"
    by (simp add: Deploy_def deploy_def key logCall_def Let_def
        split: prod.splits sum.splits option.splits)
  have restore: "\<forall>p < length heap.
            Restore h fw s w heap (Some p) =
              (case migrateMachineState h w (heap ! p) of
                 Inl err \<Rightarrow> (s, w, heap @ [heap ! p], Inr (Some err))
               | Inr migrated \<Rightarrow>
                   (case RestoreExtensionWithDeployFunction fw
                           (s\<lparr>calls := calls s @
                                [CallRestoreExtensionWithDeployFunction migrated
                                   (WorkerResource h)]\<rparr>)
                           w migrated (WorkerResource h) (deploy h fw) of
                      (s', w', shootState', r) \<Rightarrow> (s', w', heap @ [shootState'], r)))"
    by (simp add: Restore_valid)
  show ?thesis
    using fresh names migrate destroy wait waitMigrate waitCleanup dep restore
    by (intro conjI)
qed

text \<open>
  The component built from \<open>exampleValues\<close>, after a \<^verbatim>\<open>Deploy\<close> on the empty server: its
  Worker is still \<open>bar\<close> in \<open>shoot--foo--bar\<close>, and \<^verbatim>\<open>Destroy\<close> deletes that object from the
  server that \<^verbatim>\<open>Deploy\<close> left.
\<close>

theorem New_lifecycle_witness:
  "keepsObjectKey fakeFramework
   \<and> reachable exampleEnv fakeFramework exampleValues DefaultInterval DefaultSevereThreshold
         DefaultTimeout deployedWorker
   \<and> ObjectMeta_Name (ExtWorker_ObjectMeta (worker_worker deployedWorker)) = ''bar''
   \<and> ObjectMeta_Namespace (ExtWorker_ObjectMeta (worker_worker deployedWorker))
       = ''shoot--foo--bar''
   \<and> Destroy fakeFramework deployedServer deployedWorker
       = (\<lparr>client = (client deployedServer)\<lparr>apiServer_worker := None\<rparr>,
           calls = calls deployedServer @ [CallDeleteExtensionObject (worker_worker deployedWorker)]\<rparr>,
          deployedWorker, None)"
proof -
  have k: "keepsObjectKey fakeFramework"
    by (rule keepsObjectKey_fakeFramework)
  have r: "reachable exampleEnv fakeFramework exampleValues DefaultInterval DefaultSevereThreshold
             DefaultTimeout deployedWorker"
    unfolding deployedWorker_def exampleWorker_def
    by (intro reachable_Deploy reachable_New)
  note l = New_lifecycle [OF k r, of deployedServer "[]"]
  have v: "Values_Name exampleValues = ''bar''" "Values_Namespace exampleValues = ''shoot--foo--bar''"
    by (simp_all add: exampleValues_def)
  have d: "DeleteExtensionObject fakeFramework (client deployedServer) (worker_worker deployedWorker)
             = ((client deployedServer)\<lparr>apiServer_worker := None\<rparr>,
                worker_worker deployedWorker, None)"
    by (simp add: fakeFramework_def)
  from l have "ObjectMeta_Name (ExtWorker_ObjectMeta (worker_worker deployedWorker)) = ''bar''
   \<and> ObjectMeta_Namespace (ExtWorker_ObjectMeta (worker_worker deployedWorker))
       = ''shoot--foo--bar''
   \<and> Destroy fakeFramework deployedServer deployedWorker
       = (\<lparr>client = (client deployedServer)\<lparr>apiServer_worker := None\<rparr>,
           calls = calls deployedServer @ [CallDeleteExtensionObject (worker_worker deployedWorker)]\<rparr>,
          deployedWorker, None)"
    unfolding v d by simp
  with k r show ?thesis by simp
qed

end
